theory Spec2Isabelle
  imports Complex_Main "HOL-Library.Word" "HOL-Library.Sublist"
begin

unbundle bit_operations_syntax

section \<open>Geometry kernel: vectors, planes, boxes\<close>

text \<open>
  The scalars of the source are IEEE doubles (\<^verbatim>\<open>vec_t\<close>, \<^verbatim>\<open>double\<close>). They are
  modelled as exact reals: every comparison of the source is the same comparison here, and
  every sum and product is the exact one (no rounding, no NaN, no infinity). Decimal
  literals such as \<^verbatim>\<open>0.001\<close> and \<^verbatim>\<open>0.1\<close> stand for the exact decimal fractions.
\<close>

type_synonym vec_t = real

datatype qvec3d = qvec3d vec_t vec_t vec_t

text \<open>\<^verbatim>\<open>v[i]\<close> for \<^verbatim>\<open>i\<close> in 0, 1, 2.\<close>

fun vec_at :: "qvec3d \<Rightarrow> nat \<Rightarrow> vec_t" where
  "vec_at (qvec3d x y z) i = (if i = 0 then x else if i = 1 then y else z)"

text \<open>\<^verbatim>\<open>v[i] = a\<close>.\<close>

fun vec_set :: "qvec3d \<Rightarrow> nat \<Rightarrow> vec_t \<Rightarrow> qvec3d" where
  "vec_set (qvec3d x y z) i a =
     (if i = 0 then qvec3d a y z else if i = 1 then qvec3d x a z else qvec3d x y a)"

text \<open>\<^verbatim>\<open>qv::dot\<close>.\<close>

fun dot :: "qvec3d \<Rightarrow> qvec3d \<Rightarrow> vec_t" where
  "dot (qvec3d a b c) (qvec3d x y z) = a * x + b * y + c * z"

text \<open>The plane type tags \<^verbatim>\<open>PLANE_X = 0\<close> ... \<^verbatim>\<open>PLANE_ANYZ = 5\<close> of qbsp.hh.\<close>

datatype plane_type_t = PLANE_X | PLANE_Y | PLANE_Z | PLANE_ANYX | PLANE_ANYY | PLANE_ANYZ

fun plane_type_index :: "plane_type_t \<Rightarrow> nat" where
  "plane_type_index PLANE_X = 0"
| "plane_type_index PLANE_Y = 1"
| "plane_type_index PLANE_Z = 2"
| "plane_type_index PLANE_ANYX = 3"
| "plane_type_index PLANE_ANYY = 4"
| "plane_type_index PLANE_ANYZ = 5"

text \<open>\<^verbatim>\<open>plane.get_type() < plane_type_t::PLANE_ANYX\<close>.\<close>

definition is_axial :: "plane_type_t \<Rightarrow> bool" where
  "is_axial t = (plane_type_index t < plane_type_index PLANE_ANYX)"

record qbsp_plane_t =
  normal :: qvec3d
  dist :: vec_t
  ptype :: plane_type_t

text \<open>An axis-aligned box: \<^verbatim>\<open>bounds.mins()\<close>, \<^verbatim>\<open>bounds.maxs()\<close>; \<^verbatim>\<open>bounds[0]\<close> is
  the mins corner and \<^verbatim>\<open>bounds[1]\<close> the maxs corner.\<close>

record aabb3d =
  mins :: qvec3d
  maxs :: qvec3d

definition PLANESIDE_EPSILON :: vec_t where
  "PLANESIDE_EPSILON = 1 / 1000"

definition PSIDE_FRONT :: int where "PSIDE_FRONT = 1"
definition PSIDE_BACK :: int where "PSIDE_BACK = 2"
definition PSIDE_BOTH :: int where "PSIDE_BOTH = PSIDE_FRONT OR PSIDE_BACK"
definition PSIDE_FACING :: int where "PSIDE_FACING = 4"

subsection \<open>BoxOnPlaneSide\<close>

text \<open>The loop that builds the leading (\<^verbatim>\<open>corners[0]\<close>) and trailing
  (\<^verbatim>\<open>corners[1]\<close>) corner of the box for a plane normal, one axis per step.\<close>

definition box_corner_step :: "aabb3d \<Rightarrow> qvec3d \<Rightarrow> nat \<Rightarrow> qvec3d \<times> qvec3d \<Rightarrow> qvec3d \<times> qvec3d" where
  "box_corner_step bounds n i cs =
     (if vec_at n i < 0
      then (vec_set (fst cs) i (vec_at (mins bounds) i), vec_set (snd cs) i (vec_at (maxs bounds) i))
      else (vec_set (fst cs) i (vec_at (maxs bounds) i), vec_set (snd cs) i (vec_at (mins bounds) i)))"

definition box_corners :: "aabb3d \<Rightarrow> qvec3d \<Rightarrow> qvec3d \<times> qvec3d" where
  "box_corners bounds n =
     box_corner_step bounds n 2 (box_corner_step bounds n 1
       (box_corner_step bounds n 0 (qvec3d 0 0 0, qvec3d 0 0 0)))"

definition box_dist1 :: "aabb3d \<Rightarrow> qbsp_plane_t \<Rightarrow> vec_t" where
  "box_dist1 bounds plane = dot (normal plane) (fst (box_corners bounds (normal plane))) - dist plane"

definition box_dist2 :: "aabb3d \<Rightarrow> qbsp_plane_t \<Rightarrow> vec_t" where
  "box_dist2 bounds plane = dot (normal plane) (snd (box_corners bounds (normal plane))) - dist plane"

definition BoxOnPlaneSide :: "aabb3d \<Rightarrow> qbsp_plane_t \<Rightarrow> int" where
  "BoxOnPlaneSide bounds plane =
     (if is_axial (ptype plane) then
        (let side = 0;
             side = (if vec_at (maxs bounds) (plane_type_index (ptype plane)) > dist plane + PLANESIDE_EPSILON
                     then side OR PSIDE_FRONT else side);
             side = (if vec_at (mins bounds) (plane_type_index (ptype plane)) < dist plane - PLANESIDE_EPSILON
                     then side OR PSIDE_BACK else side)
         in side)
      else
        (let dist1 = box_dist1 bounds plane;
             dist2 = box_dist2 bounds plane;
             side = 0;
             side = (if dist1 \<ge> PLANESIDE_EPSILON then PSIDE_FRONT else side);
             side = (if dist2 < PLANESIDE_EPSILON then side OR PSIDE_BACK else side)
         in side))"

text \<open>The eight corners of a box.\<close>

definition box_points :: "aabb3d \<Rightarrow> qvec3d list" where
  "box_points bx =
     [qvec3d x y z.
        x \<leftarrow> [vec_at (mins bx) 0, vec_at (maxs bx) 0],
        y \<leftarrow> [vec_at (mins bx) 1, vec_at (maxs bx) 1],
        z \<leftarrow> [vec_at (mins bx) 2, vec_at (maxs bx) 2]]"

section \<open>Data model: windings, sides, brushes, statistics, globals\<close>

text \<open>A winding is the ordered list of its points; \<^verbatim>\<open>!w\<close> and \<^verbatim>\<open>w.size() == 0\<close> are
  the empty list.\<close>

type_synonym winding_t = "qvec3d list"

text \<open>Plane numbers are \<^verbatim>\<open>size_t\<close>: 64-bit words.\<close>

type_synonym planenum_t = "64 word"

text \<open>The counters of \<^verbatim>\<open>bspstats_t\<close> are \<^verbatim>\<open>std::atomic<int>\<close>: 32-bit words whose
  increment wraps.\<close>

type_synonym counter_t = "32 word"

type_synonym contentflags_t = int

text \<open>The two flags of a texinfo that the tree builder reads
  (\<^verbatim>\<open>side.get_texinfo().flags.is_hint\<close>, \<^verbatim>\<open>is_hintskip\<close>).\<close>

record maptexinfo_t =
  is_hint :: bool
  is_hintskip :: bool

text \<open>A brush side. \<^verbatim>\<open>side.w\<close> is the field \<open>side_w\<close>; \<^verbatim>\<open>side.is_visible()\<close> is
  declared outside src and is the field \<open>visible\<close> (the spec lists \<open>visible\<close> among the
  flags of a side).\<close>

record side_t =
  planenum :: planenum_t
  texinfo :: int
  side_w :: winding_t
  onnode :: bool
  bevel :: bool
  tested :: bool
  visible :: bool

record mapbrush_t =
  mapbrush_contents :: contentflags_t

text \<open>A brush. \<^verbatim>\<open>brush->side\<close> and \<^verbatim>\<open>brush->testside\<close> are the cached
  classifications \<open>side\<close> and \<open>testside\<close>. Brushes are held by value: the pointer
  \<^verbatim>\<open>mapbrush\<close> is the map brush it points to (\<open>None\<close> for a null pointer), and
  \<^verbatim>\<open>original_ptr\<close> is the brush it points to as it was when the pointer was set. An
  original brush has a null \<^verbatim>\<open>original_ptr\<close>, so the target of a non-null one never
  has one itself.\<close>

record bspbrush_base =
  sides :: "side_t list"
  bounds :: aabb3d
  contents :: contentflags_t
  mapbrush :: "mapbrush_t option"
  side :: int
  testside :: int

record bspbrush_t = bspbrush_base +
  original_ptr :: "bspbrush_base option"

text \<open>\<^verbatim>\<open>bspstats_t\<close>. The game's opaque \<^verbatim>\<open>leafstats\<close> object is the list of the
  contents counted so far, latest first.\<close>

record bspstats_t =
  leafstats :: "contentflags_t list"
  c_nodes :: counter_t
  c_nonvis :: counter_t
  c_qbsp3 :: counter_t
  c_blocksplit :: counter_t
  c_midsplit :: counter_t
  c_leafs :: counter_t
  c_bogus :: counter_t
  c_brushesremoved :: counter_t
  c_brushesonesided :: counter_t
  c_tinyvolumes :: counter_t

text \<open>The target-game interface \<^verbatim>\<open>qbsp_options.target_game\<close>.\<close>

record gamedef_t =
  create_empty_contents :: contentflags_t
  combine_contents :: "contentflags_t \<Rightarrow> contentflags_t \<Rightarrow> contentflags_t"
  is_any_detail :: "contentflags_t \<Rightarrow> bool"
  is_solid :: "contentflags_t \<Rightarrow> bool"

text \<open>The settings of \<^verbatim>\<open>qbsp_options\<close> that the tree builder reads.\<close>

record settings_t =
  worldextent :: vec_t
  microvolume :: vec_t
  midsplitbrushfraction :: vec_t
  maxnodesize :: vec_t
  epsilon :: vec_t
  target_game :: gamedef_t

text \<open>The global \<^verbatim>\<open>map\<close>: the plane registry (a plane and its flip at indices \<open>p\<close>
  and \<open>p XOR 1\<close>), the texinfo table, the skip texinfo and the number of brushes.\<close>

record mapdata_t =
  planes :: "qbsp_plane_t list"
  mtexinfos :: "maptexinfo_t list"
  skip_texinfo :: int
  total_brushes :: nat

text \<open>
  The winding and box operations that the tree builder calls and whose code is outside src
  (common/polylib.hh, common/aabb.hh, qbsp/brush.cc). They are parameters of the model:
  every theorem below holds for every choice of them.
  \<^item> \<open>BaseWindingForPlane\<close>: the base polygon of a plane;
  \<^item> \<open>clip_back\<close>: \<^verbatim>\<open>w->clip_back(plane)\<close>, the part of a winding behind a plane, if any;
  \<^item> \<open>clip\<close>: \<^verbatim>\<open>w.clip(plane, eps)\<close>, the front and the back part of a winding;
  \<^item> \<open>flip\<close>: \<^verbatim>\<open>w.flip()\<close>; \<open>area\<close>: \<^verbatim>\<open>w.area()\<close>; \<open>vec_length\<close>: \<^verbatim>\<open>qv::length\<close>;
  \<^item> \<open>update_bounds\<close>: \<^verbatim>\<open>brush->update_bounds(false)\<close>, which recomputes the bounds of
    the brush and returns whether they are valid;
  \<^item> \<open>box_empty\<close>: the default-constructed \<^verbatim>\<open>aabb3d\<close>; \<open>box_volume\<close>:
    \<^verbatim>\<open>aabb3d::volume()\<close>; \<open>box_grow\<close>: \<^verbatim>\<open>aabb3d::grow\<close>; \<open>box_union\<close>:
    \<^verbatim>\<open>aabb3d::operator+=\<close>; \<open>disjoint_or_touching\<close>;
  \<^item> \<open>add_or_find_plane\<close>: the plane registry's insertion, which may extend the registry;
  \<^item> \<open>CreateBrushWindings\<close>: builds the windings and bounds of a brush from its planes.
\<close>

record kernel_t =
  BaseWindingForPlane :: "qbsp_plane_t \<Rightarrow> winding_t"
  clip_back :: "winding_t \<Rightarrow> qbsp_plane_t \<Rightarrow> winding_t option"
  clip :: "winding_t \<Rightarrow> qbsp_plane_t \<Rightarrow> vec_t \<Rightarrow> winding_t option \<times> winding_t option"
  flip :: "winding_t \<Rightarrow> winding_t"
  area :: "winding_t \<Rightarrow> vec_t"
  vec_length :: "qvec3d \<Rightarrow> vec_t"
  update_bounds :: "settings_t \<Rightarrow> bspbrush_t \<Rightarrow> bool \<times> bspbrush_t"
  box_empty :: aabb3d
  box_volume :: "aabb3d \<Rightarrow> vec_t"
  box_grow :: "aabb3d \<Rightarrow> vec_t \<Rightarrow> aabb3d"
  box_union :: "aabb3d \<Rightarrow> aabb3d \<Rightarrow> aabb3d"
  disjoint_or_touching :: "aabb3d \<Rightarrow> aabb3d \<Rightarrow> bool"
  add_or_find_plane :: "mapdata_t \<Rightarrow> qbsp_plane_t \<Rightarrow> planenum_t \<times> mapdata_t"
  CreateBrushWindings :: "mapdata_t \<Rightarrow> bspbrush_t \<Rightarrow> bspbrush_t"

text \<open>The globals a function reads: the kernel, \<^verbatim>\<open>qbsp_options\<close>, \<^verbatim>\<open>map\<close>, and
  the constant \<^verbatim>\<open>VECT_MAX\<close> of qbsp.hh (\<^verbatim>\<open>DBL_MAX\<close> or \<^verbatim>\<open>FLT_MAX\<close>, as
  \<^verbatim>\<open>DOUBLEVEC_T\<close> is defined or not).\<close>

record globals_t =
  kernel :: kernel_t
  qbsp_options :: settings_t
  mapdata :: mapdata_t
  VECT_MAX :: vec_t

text \<open>\<^verbatim>\<open>map.get_plane(n)\<close> and \<^verbatim>\<open>map.planes[n]\<close>. An index outside the registry is
  undefined behaviour in the source and an unspecified plane here.\<close>

definition get_plane :: "globals_t \<Rightarrow> planenum_t \<Rightarrow> qbsp_plane_t" where
  "get_plane G n = planes (mapdata G) ! unat n"

text \<open>\<^verbatim>\<open>side.get_plane()\<close>, \<^verbatim>\<open>side.get_positive_plane()\<close> and
  \<^verbatim>\<open>side.get_texinfo()\<close>.\<close>

definition side_get_plane :: "globals_t \<Rightarrow> side_t \<Rightarrow> qbsp_plane_t" where
  "side_get_plane G s = get_plane G (planenum s)"

definition side_get_positive_plane :: "globals_t \<Rightarrow> side_t \<Rightarrow> qbsp_plane_t" where
  "side_get_positive_plane G s = get_plane G (planenum s AND NOT 1)"

definition side_get_texinfo :: "globals_t \<Rightarrow> side_t \<Rightarrow> maptexinfo_t" where
  "side_get_texinfo G s = mtexinfos (mapdata G) ! nat (texinfo s)"

text \<open>The signed distance \<^verbatim>\<open>qv::dot(p, plane.normal) - plane.dist\<close> of a point.\<close>

definition plane_dist :: "qbsp_plane_t \<Rightarrow> qvec3d \<Rightarrow> vec_t" where
  "plane_dist plane p = dot p (normal plane) - dist plane"

section \<open>TestBrushToPlanenum\<close>

text \<open>The first loop: the first side on the plane or on its flip decides.\<close>

fun facing_side :: "side_t list \<Rightarrow> planenum_t \<Rightarrow> int option" where
  "facing_side [] pn = None"
| "facing_side (s # ss) pn =
     (if planenum s = pn then Some (PSIDE_BACK OR PSIDE_FACING)
      else if planenum s = pn XOR 1 then Some (PSIDE_FRONT OR PSIDE_FACING)
      else facing_side ss pn)"

text \<open>The loop over the points of one winding: \<open>(d_front, d_back, front, back)\<close>.\<close>

definition test_point :: "qbsp_plane_t \<Rightarrow> qvec3d \<Rightarrow> vec_t \<times> vec_t \<times> bool \<times> bool \<Rightarrow> vec_t \<times> vec_t \<times> bool \<times> bool" where
  "test_point plane point acc =
     (case acc of (d_front, d_back, front, back) \<Rightarrow>
        (let d = plane_dist plane point
         in (if d > d_front then d else d_front,
             if d < d_back then d else d_back,
             if d > 1 / 10 then True else front,
             if d < - (1 / 10) then True else back)))"

text \<open>The loop body over one side: \<open>(d_front, d_back, numsplits, hintsplit)\<close>.\<close>

definition test_side :: "globals_t \<Rightarrow> qbsp_plane_t \<Rightarrow> side_t \<Rightarrow> vec_t \<times> vec_t \<times> int \<times> bool \<Rightarrow> vec_t \<times> vec_t \<times> int \<times> bool" where
  "test_side G plane s acc =
     (case acc of (d_front, d_back, numsplits, hintsplit) \<Rightarrow>
        if onnode s then acc
        else if \<not> visible s then acc
        else if side_w s = [] then acc
        else
          (case fold (test_point plane) (side_w s) (d_front, d_back, False, False) of
             (d_front', d_back', front, back) \<Rightarrow>
               if front \<and> back then
                 (if \<not> is_hintskip (side_get_texinfo G s)
                  then (d_front', d_back', numsplits + 1,
                        if is_hint (side_get_texinfo G s) then True else hintsplit)
                  else (d_front', d_back', numsplits, hintsplit))
               else (d_front', d_back', numsplits, hintsplit)))"

text \<open>
  The three out-parameters are pointers: \<open>None\<close> is a null pointer and \<open>Some v\<close> a
  pointer to a variable that holds \<open>v\<close>. The result is the classification and the
  variables after the call.
\<close>

definition TestBrushToPlanenum ::
  "globals_t \<Rightarrow> bspbrush_t \<Rightarrow> planenum_t \<Rightarrow> int option \<Rightarrow> bool option \<Rightarrow> int option
   \<Rightarrow> int \<times> int option \<times> bool option \<times> int option" where
  "TestBrushToPlanenum G brush pn numsplits hintsplit epsilonbrush =
     (let numsplits = (if numsplits \<noteq> None then Some 0 else numsplits);
          hintsplit = (if hintsplit \<noteq> None then Some False else hintsplit)
      in case facing_side (sides brush) pn of
           Some s \<Rightarrow> (s, numsplits, hintsplit, epsilonbrush)
         | None \<Rightarrow>
             (let plane = get_plane G pn;
                  s = BoxOnPlaneSide (bounds brush) plane
              in if s \<noteq> PSIDE_BOTH then (s, numsplits, hintsplit, epsilonbrush)
                 else
                   (case (numsplits, hintsplit, epsilonbrush) of
                      (Some ns, Some hs, Some eb) \<Rightarrow>
                        (case fold (test_side G plane) (sides brush) (0, 0, ns, hs) of
                           (d_front, d_back, ns', hs') \<Rightarrow>
                             (s, Some ns', Some hs',
                              if (d_front > 0 \<and> d_front < 1) \<or> (d_back < 0 \<and> d_back > - 1)
                              then Some (eb + 1) else Some eb))
                    | _ \<Rightarrow> (s, numsplits, hintsplit, epsilonbrush))))"

section \<open>SplitBrush\<close>

text \<open>\<^verbatim>\<open>WindingIsTiny(w, size)\<close>: the loop over the edges counts those longer than
  \<open>size\<close> and returns false at the third.\<close>

fun WindingIsTiny_loop :: "kernel_t \<Rightarrow> winding_t \<Rightarrow> vec_t \<Rightarrow> nat \<Rightarrow> nat \<Rightarrow> int \<Rightarrow> bool" where
  "WindingIsTiny_loop K wn sz 0 i edges = True"
| "WindingIsTiny_loop K wn sz (Suc k) i edges =
     (let j = (i + 1) mod length wn;
          len = vec_length K (case (wn ! j, wn ! i) of
                  (qvec3d a b c, qvec3d x y z) \<Rightarrow> qvec3d (a - x) (b - y) (c - z))
      in if len > sz
         then (if edges + 1 = 3 then False else WindingIsTiny_loop K wn sz k (i + 1) (edges + 1))
         else WindingIsTiny_loop K wn sz k (i + 1) edges)"

definition WindingIsTiny :: "kernel_t \<Rightarrow> winding_t \<Rightarrow> vec_t \<Rightarrow> bool" where
  "WindingIsTiny K wn sz = WindingIsTiny_loop K wn sz (length wn) 0 0"

text \<open>Modelled from the spec: the default of the \<^verbatim>\<open>size\<close> argument of
  \<^verbatim>\<open>WindingIsTiny\<close> is declared in qbsp/brushbsp.hh, which is not in src; the spec gives
  the snap threshold 0.2.\<close>

definition WindingIsTiny_default_size :: vec_t where
  "WindingIsTiny_default_size = 2 / 10"

text \<open>\<^verbatim>\<open>BrushVolume\<close>: the corner is the first point of the last side that has a
  winding (the loop does not stop at the first one).\<close>

definition BrushVolume :: "globals_t \<Rightarrow> bspbrush_t \<Rightarrow> vec_t" where
  "BrushVolume G brush =
     (case fold (\<lambda>face found. if length (side_w face) > 0 then Some (side_w face ! 0) else found)
             (sides brush) None of
        None \<Rightarrow> 0
      | Some corner \<Rightarrow>
          fold (\<lambda>s volume.
                  if side_w s = [] then volume
                  else (let plane = side_get_plane G s;
                            d = - (dot corner (normal plane) - dist plane);
                            ar = area (kernel G) (side_w s)
                        in volume + d * ar))
               (sides brush) 0 / 3)"

datatype planeside_t = SIDE_FRONT | SIDE_BACK

text \<open>\<^verbatim>\<open>BrushMostlyOnSide\<close>: the loop state is \<open>(max, side)\<close>.\<close>

definition mostly_point :: "qbsp_plane_t \<Rightarrow> qvec3d \<Rightarrow> vec_t \<times> planeside_t \<Rightarrow> vec_t \<times> planeside_t" where
  "mostly_point plane p acc =
     (let d = plane_dist plane p;
          acc = (if d > fst acc then (d, SIDE_FRONT) else acc);
          acc = (if - d > fst acc then (- d, SIDE_BACK) else acc)
      in acc)"

definition BrushMostlyOnSide :: "bspbrush_t \<Rightarrow> qbsp_plane_t \<Rightarrow> planeside_t" where
  "BrushMostlyOnSide brush plane =
     snd (fold (\<lambda>face acc. fold (mostly_point plane) (side_w face) acc) (sides brush) (0, SIDE_FRONT))"

text \<open>The first loop of \<^verbatim>\<open>SplitBrush\<close>, over all points of all sides:
  \<open>(d_front, d_back)\<close>.\<close>

definition split_point :: "qbsp_plane_t \<Rightarrow> qvec3d \<Rightarrow> vec_t \<times> vec_t \<Rightarrow> vec_t \<times> vec_t" where
  "split_point split p acc =
     (let d = plane_dist split p
      in (if d > 0 \<and> d > fst acc then d else fst acc,
          if d < 0 \<and> d < snd acc then d else snd acc))"

definition split_dists :: "qbsp_plane_t \<Rightarrow> bspbrush_t \<Rightarrow> vec_t \<times> vec_t" where
  "split_dists split brush =
     fold (\<lambda>face acc. fold (split_point split) (side_w face) acc) (sides brush) (0, 0)"

text \<open>The dividing winding: the base winding of the split plane, clipped to the back of
  every side of the brush, until nothing is left.\<close>

definition split_midwinding :: "globals_t \<Rightarrow> qbsp_plane_t \<Rightarrow> bspbrush_t \<Rightarrow> winding_t option" where
  "split_midwinding G split brush =
     fold (\<lambda>face wo. case wo of None \<Rightarrow> None
                               | Some wn \<Rightarrow> clip_back (kernel G) wn (side_get_plane G face))
          (sides brush) (Some (BaseWindingForPlane (kernel G) split))"

text \<open>The two empty halves: \<^verbatim>\<open>original_ptr\<close>, \<^verbatim>\<open>mapbrush\<close> and \<^verbatim>\<open>contents\<close>
  are set, every other field is as \<^verbatim>\<open>make_ptr\<close> leaves it.\<close>

definition new_half :: "globals_t \<Rightarrow> bspbrush_t \<Rightarrow> bspbrush_t" where
  "new_half G brush =
     \<lparr>sides = [], bounds = box_empty (kernel G), contents = contents brush, mapbrush = mapbrush brush,
      side = 0, testside = 0,
      original_ptr = (case original_ptr brush of Some p \<Rightarrow> Some p
                      | None \<Rightarrow> Some (bspbrush_base.truncate brush))\<rparr>"

text \<open>The loop that clips every side by the split plane and appends the parts to the two
  halves.\<close>

definition split_face :: "globals_t \<Rightarrow> qbsp_plane_t \<Rightarrow> side_t \<Rightarrow> bspbrush_t \<times> bspbrush_t \<Rightarrow> bspbrush_t \<times> bspbrush_t" where
  "split_face G split face res =
     (let cw = clip (kernel G) (side_w face) split 0;
          r0 = (case fst cw of None \<Rightarrow> fst res
                | Some w0 \<Rightarrow> (fst res)\<lparr>sides := sides (fst res) @ [face\<lparr>side_w := w0\<rparr>]\<rparr>);
          r1 = (case snd cw of None \<Rightarrow> snd res
                | Some w1 \<Rightarrow> (snd res)\<lparr>sides := sides (snd res) @ [face\<lparr>side_w := w1\<rparr>]\<rparr>)
      in (r0, r1))"

definition split_faces :: "globals_t \<Rightarrow> qbsp_plane_t \<Rightarrow> bspbrush_t \<Rightarrow> bspbrush_t \<times> bspbrush_t" where
  "split_faces G split brush =
     fold (split_face G split) (sides brush) (new_half G brush, new_half G brush)"

text \<open>The check of the bounds against the world extent, axis by axis, stopping at the
  first axis outside.\<close>

definition bounds_outside :: "settings_t \<Rightarrow> aabb3d \<Rightarrow> bool" where
  "bounds_outside opts b =
     ((vec_at (mins b) 0 < - worldextent opts \<or> vec_at (maxs b) 0 > worldextent opts) \<or>
      (vec_at (mins b) 1 < - worldextent opts \<or> vec_at (maxs b) 1 > worldextent opts) \<or>
      (vec_at (mins b) 2 < - worldextent opts \<or> vec_at (maxs b) 2 > worldextent opts))"

text \<open>One round of the validation loop: the half after the check (\<open>None\<close> when it is
  dropped) and the statistics.\<close>

definition validate_half :: "globals_t \<Rightarrow> bspbrush_t \<Rightarrow> bspstats_t \<Rightarrow> bspbrush_t option \<times> bspstats_t" where
  "validate_half G half stats =
     (case update_bounds (kernel G) (qbsp_options G) half of
        (ok, half') \<Rightarrow>
          (let bogus = (\<not> ok \<or> bounds_outside (qbsp_options G) (bounds half'));
               stats' = (if bogus then stats\<lparr>c_bogus := c_bogus stats + 1\<rparr> else stats)
           in (if length (sides half') < 3 \<or> bogus then None else Some half', stats')))"

text \<open>The dividing face added to half \<open>i\<close> (0 is the front half).\<close>

definition mid_side :: "globals_t \<Rightarrow> planenum_t \<Rightarrow> winding_t \<Rightarrow> nat \<Rightarrow> side_t" where
  "mid_side G pn midwinding i =
     \<lparr>planenum = pn XOR of_nat i XOR 1,
      texinfo = skip_texinfo (mapdata G),
      side_w = (if i = 0 then flip (kernel G) midwinding else midwinding),
      onnode = True, bevel = False, tested = False, visible = False\<rparr>"

text \<open>The last loop: a half whose volume is below \<^verbatim>\<open>microvolume\<close> is dropped.\<close>

definition volume_check :: "globals_t \<Rightarrow> bspbrush_t \<Rightarrow> bspstats_t \<Rightarrow> bspbrush_t option \<times> bspstats_t" where
  "volume_check G half stats =
     (if BrushVolume G half < microvolume (qbsp_options G)
      then (None, stats\<lparr>c_tinyvolumes := c_tinyvolumes stats + 1\<rparr>)
      else (Some half, stats))"

text \<open>The block "the brush isn't really split": the whole brush goes to the side it is
  mostly on.\<close>

definition split_unsplit :: "bspbrush_t \<Rightarrow> qbsp_plane_t \<Rightarrow> bspbrush_t option \<times> bspbrush_t option" where
  "split_unsplit brush split =
     (if BrushMostlyOnSide brush split = SIDE_FRONT then (Some brush, None) else (None, Some brush))"

text \<open>The end of \<^verbatim>\<open>SplitBrush\<close>, from the validated halves \<open>r0\<close> (front) and \<open>r1\<close>
  (back) on.\<close>

definition split_finish ::
  "globals_t \<Rightarrow> bspbrush_t \<Rightarrow> planenum_t \<Rightarrow> winding_t \<Rightarrow> bspbrush_t option \<Rightarrow> bspbrush_t option
   \<Rightarrow> bspstats_t \<Rightarrow> (bspbrush_t option \<times> bspbrush_t option) \<times> bspstats_t" where
  "split_finish G brush pn midwinding r0 r1 stats =
     (case (r0, r1) of
        (None, None) \<Rightarrow> ((None, None), stats\<lparr>c_brushesremoved := c_brushesremoved stats + 1\<rparr>)
      | (Some f, None) \<Rightarrow> ((Some brush, None), stats\<lparr>c_brushesonesided := c_brushesonesided stats + 1\<rparr>)
      | (None, Some b) \<Rightarrow> ((None, Some brush), stats\<lparr>c_brushesonesided := c_brushesonesided stats + 1\<rparr>)
      | (Some f, Some b) \<Rightarrow>
          (let f' = f\<lparr>sides := sides f @ [mid_side G pn midwinding 0]\<rparr>;
               b' = b\<lparr>sides := sides b @ [mid_side G pn midwinding 1]\<rparr>
           in case volume_check G f' stats of
                (front, stats2) \<Rightarrow>
                  (case volume_check G b' stats2 of
                     (back, stats3) \<Rightarrow> ((front, back), stats3))))"

text \<open>\<^verbatim>\<open>SplitBrush(brush, planenum, stats)\<close>: the pair \<open>(front, back)\<close> and the
  statistics after the call. The warning about a huge winding only prints.\<close>

definition SplitBrush ::
  "globals_t \<Rightarrow> bspbrush_t \<Rightarrow> planenum_t \<Rightarrow> bspstats_t
   \<Rightarrow> (bspbrush_t option \<times> bspbrush_t option) \<times> bspstats_t" where
  "SplitBrush G brush pn stats =
     (let split = get_plane G pn;
          d_front = fst (split_dists split brush);
          d_back = snd (split_dists split brush)
      in if d_front < 1 / 10 then ((None, Some brush), stats)
         else if d_back > - (1 / 10) then ((Some brush, None), stats)
         else
           (case split_midwinding G split brush of
              None \<Rightarrow> (split_unsplit brush split, stats)
            | Some midwinding \<Rightarrow>
                if WindingIsTiny (kernel G) midwinding WindingIsTiny_default_size
                then (split_unsplit brush split, stats)
                else
                  (case split_faces G split brush of
                     (h0, h1) \<Rightarrow>
                       (case validate_half G h0 stats of
                          (r0, stats0) \<Rightarrow>
                            (case validate_half G h1 stats0 of
                               (r1, stats1) \<Rightarrow>
                                 split_finish G brush pn midwinding r0 r1 stats1)))))"

section \<open>SplitBrushList\<close>

text \<open>One round of the loop: \<open>(result[0], result[1], stats)\<close>. A brush that is neither
  split nor pushed to a list is dropped.\<close>

definition mark_onnode :: "planenum_t \<Rightarrow> bspbrush_t \<Rightarrow> bspbrush_t" where
  "mark_onnode pn brush =
     brush\<lparr>sides := map (\<lambda>s. if planenum s AND NOT 1 = pn then s\<lparr>onnode := True\<rparr> else s) (sides brush)\<rparr>"

definition split_list_step ::
  "globals_t \<Rightarrow> planenum_t \<Rightarrow> bspbrush_t \<Rightarrow> bspbrush_t list \<times> bspbrush_t list \<times> bspstats_t
   \<Rightarrow> bspbrush_t list \<times> bspbrush_t list \<times> bspstats_t" where
  "split_list_step G pn brush acc =
     (case acc of (res0, res1, stats) \<Rightarrow>
        if side brush = PSIDE_BOTH then
          (case SplitBrush G brush pn stats of
             ((front, back), stats') \<Rightarrow>
               (case front of None \<Rightarrow> res0 | Some f \<Rightarrow> res0 @ [f],
                case back of None \<Rightarrow> res1 | Some b \<Rightarrow> res1 @ [b],
                stats'))
        else
          (let brush' = (if side brush AND PSIDE_FACING \<noteq> 0 then mark_onnode pn brush else brush)
           in if side brush AND PSIDE_FRONT \<noteq> 0 then (res0 @ [brush'], res1, stats)
              else if side brush AND PSIDE_BACK \<noteq> 0 then (res0, res1 @ [brush'], stats)
              else (res0, res1, stats)))"

definition SplitBrushList ::
  "globals_t \<Rightarrow> bspbrush_t list \<Rightarrow> planenum_t \<Rightarrow> bspstats_t
   \<Rightarrow> bspbrush_t list \<times> bspbrush_t list \<times> bspstats_t" where
  "SplitBrushList G brushes pn stats = fold (split_list_step G pn) brushes ([], [], stats)"

section \<open>Nodes and the tree\<close>

text \<open>
  Modelled from the spec: \<^verbatim>\<open>node_t\<close>, \<^verbatim>\<open>tree_t\<close> and \<^verbatim>\<open>tree_t::create_node\<close>
  are declared in qbsp/tree.hh, which is not in src. The spec gives a node the fields
  is_leaf, plane_index, children[2], bounds, volume, parent, contents, original_brushes
  and detail_separator, and has the nodes owned by an arena of the tree. A pointer to a
  node is its index in the arena, \<open>None\<close> the null pointer; \<open>create_node\<close> appends a
  fresh node to the arena and returns its index.
\<close>

record node_t =
  is_leaf :: bool
  node_planenum :: planenum_t
  children :: "nat option \<times> nat option"
  node_bounds :: aabb3d
  volume :: "bspbrush_t option"
  parent :: "nat option"
  node_contents :: contentflags_t
  original_brushes :: "bspbrush_base list"
  detail_separator :: bool

record tree_t =
  nodes :: "node_t list"
  headnode :: "nat option"
  tree_bounds :: aabb3d

definition new_node :: "globals_t \<Rightarrow> node_t" where
  "new_node G = \<lparr>is_leaf = False, node_planenum = 0, children = (None, None),
     node_bounds = box_empty (kernel G), volume = None, parent = None, node_contents = 0,
     original_brushes = [], detail_separator = False\<rparr>"

definition new_tree :: "globals_t \<Rightarrow> tree_t" where
  "new_tree G = \<lparr>nodes = [], headnode = None, tree_bounds = box_empty (kernel G)\<rparr>"

definition create_node :: "globals_t \<Rightarrow> tree_t \<Rightarrow> nat \<times> tree_t" where
  "create_node G t = (length (nodes t), t\<lparr>nodes := nodes t @ [new_node G]\<rparr>)"

text \<open>\<^verbatim>\<open>n->field = v\<close> through a node pointer \<open>n\<close>.\<close>

definition node_upd :: "nat \<Rightarrow> (node_t \<Rightarrow> node_t) \<Rightarrow> tree_t \<Rightarrow> tree_t" where
  "node_upd n f t = t\<lparr>nodes := (nodes t)[n := f (nodes t ! n)]\<rparr>"

record mapentity_t =
  entity_bounds :: aabb3d

text \<open>The fatal errors (\<^verbatim>\<open>Error(...)\<close>, a failed \<^verbatim>\<open>Q_assert\<close>), the exception of
  \<^verbatim>\<open>std::optional::value()\<close> on an empty optional, and the dereference of a null
  \<^verbatim>\<open>node->volume\<close>.\<close>

datatype error = TriedParent | FacingWithSplits | BadOptionalAccess | AssertionFailed | NullVolume

section \<open>Midsplit: DivideBounds, SplitPlaneMetric, ChooseMidPlaneFromList\<close>

definition NORMAL_EPSILON :: vec_t where
  "NORMAL_EPSILON = 1 / 1000000"

text \<open>\<^verbatim>\<open>in_bounds[i]\<close>: corner 0 is mins, corner 1 is maxs.\<close>

definition box_at :: "aabb3d \<Rightarrow> nat \<Rightarrow> qvec3d" where
  "box_at b i = (if i = 0 then mins b else maxs b)"

text \<open>
  One round of the innermost loop of \<^verbatim>\<open>DivideBounds\<close> for the axis \<open>a\<close> and the
  corner \<open>(i, j)\<close>: the state is \<open>(split_mins, split_maxs)\<close>. With \<open>dist1 = dist2\<close>
  the source divides by zero and every later value is a NaN; the model gives \<open>None\<close>.
\<close>

definition divide_corner ::
  "aabb3d \<Rightarrow> qbsp_plane_t \<Rightarrow> nat \<Rightarrow> nat \<times> nat \<Rightarrow> (vec_t \<times> vec_t) option \<Rightarrow> (vec_t \<times> vec_t) option" where
  "divide_corner inb split a ij acc =
     (case acc of None \<Rightarrow> None
      | Some (split_mins, split_maxs) \<Rightarrow>
          (let b = (a + 1) mod 3;
               c = (a + 2) mod 3;
               corner = vec_set (vec_set (qvec3d 0 0 0) b (vec_at (box_at inb (fst ij)) b))
                                c (vec_at (box_at inb (snd ij)) c);
               dist1 = dot (normal split) (vec_set corner a (vec_at (box_at inb 0) a)) - dist split;
               dist2 = dot (normal split) (vec_set corner a (vec_at (box_at inb 1) a)) - dist split
           in if dist1 - dist2 = 0 then None
              else
                (let mid = (vec_at (box_at inb 1) a - vec_at (box_at inb 0) a) * (dist1 / (dist1 - dist2))
                           + vec_at (box_at inb 0) a
                 in Some (max (min mid split_mins) (vec_at (mins inb) a),
                          min (max mid split_maxs) (vec_at (maxs inb) a)))))"

text \<open>One round of the loop over the axes: the state is \<open>(front_bounds, back_bounds)\<close>.\<close>

definition divide_axis ::
  "aabb3d \<Rightarrow> qbsp_plane_t \<Rightarrow> nat \<Rightarrow> (aabb3d \<times> aabb3d) option \<Rightarrow> (aabb3d \<times> aabb3d) option" where
  "divide_axis inb split a acc =
     (case acc of None \<Rightarrow> None
      | Some (front_bounds, back_bounds) \<Rightarrow>
          if \<bar>vec_at (normal split) a\<bar> < NORMAL_EPSILON then acc
          else
            (case fold (divide_corner inb split a) [(0, 0), (0, 1), (1, 0), (1, 1)]
                    (Some (vec_at (maxs inb) a, vec_at (mins inb) a)) of
               None \<Rightarrow> None
             | Some (split_mins, split_maxs) \<Rightarrow>
                 if vec_at (normal split) a > 0
                 then Some (front_bounds\<lparr>mins := vec_set (mins front_bounds) a split_mins\<rparr>,
                            back_bounds\<lparr>maxs := vec_set (maxs back_bounds) a split_maxs\<rparr>)
                 else Some (front_bounds\<lparr>maxs := vec_set (maxs front_bounds) a split_maxs\<rparr>,
                            back_bounds\<lparr>mins := vec_set (mins back_bounds) a split_mins\<rparr>)))"

definition DivideBounds :: "aabb3d \<Rightarrow> qbsp_plane_t \<Rightarrow> (aabb3d \<times> aabb3d) option" where
  "DivideBounds inb split =
     (if is_axial (ptype split) then
        Some (inb\<lparr>mins := vec_set (mins inb) (plane_type_index (ptype split)) (dist split)\<rparr>,
              inb\<lparr>maxs := vec_set (maxs inb) (plane_type_index (ptype split)) (dist split)\<rparr>)
      else fold (divide_axis inb split) [0, 1, 2] (Some (inb, inb)))"

text \<open>\<^verbatim>\<open>SplitPlaneMetric\<close>; \<open>None\<close> is a NaN.\<close>

definition SplitPlaneMetric :: "globals_t \<Rightarrow> qbsp_plane_t \<Rightarrow> aabb3d \<Rightarrow> vec_t option" where
  "SplitPlaneMetric G p bnds =
     (case DivideBounds bnds p of
        None \<Rightarrow> None
      | Some (f, b) \<Rightarrow> Some \<bar>box_volume (kernel G) f - box_volume (kernel G) b\<bar>)"

text \<open>\<^verbatim>\<open>CheckPlaneAgainstVolume\<close>, for a node whose volume is \<open>vol\<close>: the copy of the
  volume is split and both halves must exist.\<close>

definition CheckPlaneAgainstVolume :: "globals_t \<Rightarrow> planenum_t \<Rightarrow> bspbrush_t \<Rightarrow> bspstats_t \<Rightarrow> bool \<times> bspstats_t" where
  "CheckPlaneAgainstVolume G pn vol stats =
     (case SplitBrush G vol pn stats of
        ((front, back), stats') \<Rightarrow> (front \<noteq> None \<and> back \<noteq> None, stats'))"

text \<open>The state of the loop of \<^verbatim>\<open>ChooseMidPlaneFromList\<close>.\<close>

record midplane_state =
  bestaxialmetric :: vec_t
  bestaxialplane :: "planenum_t option"
  bestanymetric :: vec_t
  bestanyplane :: "planenum_t option"
  mid_stats :: bspstats_t

text \<open>A side that is neither a bevel nor on a node is a candidate. A comparison with a
  NaN metric is false.\<close>

definition mid_candidate :: "side_t \<Rightarrow> bool" where
  "mid_candidate s = (\<not> bevel s \<and> \<not> onnode s)"

definition mid_side_step :: "globals_t \<Rightarrow> bspbrush_t \<Rightarrow> aabb3d \<Rightarrow> side_t \<Rightarrow> midplane_state \<Rightarrow> midplane_state" where
  "mid_side_step G vol nbounds s st =
     (if bevel s then st
      else if onnode s then st
      else
        (let positive_planenum = planenum s AND NOT 1;
             plane = side_get_positive_plane G s
         in case CheckPlaneAgainstVolume G positive_planenum vol (mid_stats st) of
              (good, stats') \<Rightarrow>
                (let st = st\<lparr>mid_stats := stats'\<rparr>
                 in if \<not> good then st
                    else
                      (case SplitPlaneMetric G plane nbounds of
                         None \<Rightarrow> st
                       | Some metric \<Rightarrow>
                           (let st = (if metric < bestanymetric st
                                      then st\<lparr>bestanymetric := metric,
                                              bestanyplane := Some (planenum s AND NOT 1)\<rparr>
                                      else st);
                                st = (if is_axial (ptype plane) \<and> metric < bestaxialmetric st
                                      then st\<lparr>bestaxialmetric := metric,
                                              bestaxialplane := Some (planenum s AND NOT 1)\<rparr>
                                      else st)
                            in st)))))"

definition mid_loop :: "globals_t \<Rightarrow> bspbrush_t \<Rightarrow> aabb3d \<Rightarrow> bspbrush_t list \<Rightarrow> midplane_state \<Rightarrow> midplane_state" where
  "mid_loop G vol nbounds brushes st =
     fold (\<lambda>brush st. fold (mid_side_step G vol nbounds) (sides brush) st) brushes st"

text \<open>
  \<^verbatim>\<open>ChooseMidPlaneFromList(brushes, node, stats)\<close>. The node's volume is dereferenced
  for the first candidate side: with a null volume this is the error \<open>NullVolume\<close> as
  soon as a candidate exists.
\<close>

definition ChooseMidPlaneFromList ::
  "globals_t \<Rightarrow> bspbrush_t list \<Rightarrow> node_t \<Rightarrow> bspstats_t \<Rightarrow> error + (planenum_t option \<times> bspstats_t)" where
  "ChooseMidPlaneFromList G brushes node stats =
     (case volume node of
        None \<Rightarrow>
          if list_ex (\<lambda>brush. list_ex mid_candidate (sides brush)) brushes
          then Inl NullVolume else Inr (None, stats)
      | Some vol \<Rightarrow>
          (let st = mid_loop G vol (node_bounds node) brushes
                      \<lparr>bestaxialmetric = VECT_MAX G, bestaxialplane = None,
                       bestanymetric = VECT_MAX G, bestanyplane = None, mid_stats = stats\<rparr>
           in Inr (if bestaxialplane st \<noteq> None then bestaxialplane st else bestanyplane st,
                   mid_stats st)))"

section \<open>SelectSplitPlane\<close>

text \<open>
  \<^verbatim>\<open>CheckPlaneAgainstParents\<close> walks the parent pointers. The walk is bounded by the
  number of nodes of the arena: a walk that has visited that many nodes without reaching
  a null parent or the plane is in a cycle without the plane, where the source loops
  forever; this is the value \<open>None\<close>.
\<close>

fun parents_walk :: "node_t list \<Rightarrow> nat \<Rightarrow> nat option \<Rightarrow> planenum_t \<Rightarrow> (error + unit) option" where
  "parents_walk ns k None pn = Some (Inr ())"
| "parents_walk ns 0 (Some p) pn = None"
| "parents_walk ns (Suc k) (Some p) pn =
     (if node_planenum (ns ! p) = pn then Some (Inl TriedParent)
      else parents_walk ns k (parent (ns ! p)) pn)"

definition CheckPlaneAgainstParents :: "planenum_t \<Rightarrow> tree_t \<Rightarrow> nat \<Rightarrow> (error + unit) option" where
  "CheckPlaneAgainstParents pn t n = parents_walk (nodes t) (length (nodes t)) (parent (nodes t ! n)) pn"

text \<open>\<^verbatim>\<open>brushes.size() / (double) map.total_brushes > fraction\<close> for a non-empty list:
  with no brushes in the map the quotient is an infinity.\<close>

definition fraction_exceeds :: "nat \<Rightarrow> nat \<Rightarrow> vec_t \<Rightarrow> bool" where
  "fraction_exceeds n tot f = (if tot = 0 then True else real n / real tot > f)"

text \<open>
  The value of \<^verbatim>\<open>forced_quick_tree\<close> when \<^verbatim>\<open>forced_quick_tree.value()\<close> is read to
  decide on the midsplit method, for a call with \<^verbatim>\<open>forced_quick_tree\<close> empty:
  \<open>None\<close> when it is still empty there.
\<close>

definition midsplit_auto :: "globals_t \<Rightarrow> nat \<Rightarrow> aabb3d \<Rightarrow> bool option" where
  "midsplit_auto G n nb =
     (if midsplitbrushfraction (qbsp_options G) \<noteq> 0 then
        Some (fraction_exceeds n (total_brushes (mapdata G)) (midsplitbrushfraction (qbsp_options G)))
      else if maxnodesize (qbsp_options G) \<ge> 64 then
        (let m = maxnodesize (qbsp_options G) - epsilon (qbsp_options G)
         in Some (vec_at (maxs nb) 0 - vec_at (mins nb) 0 > m
                \<or> vec_at (maxs nb) 1 - vec_at (mins nb) 1 > m
                \<or> vec_at (maxs nb) 2 - vec_at (mins nb) 2 > m))
      else None)"

text \<open>
  Whether \<^verbatim>\<open>SelectSplitPlane\<close> tries the midsplit method (calls
  \<^verbatim>\<open>ChooseMidPlaneFromList\<close>) for a list of \<open>n\<close> brushes: \<open>Inl\<close> is the exception of
  \<^verbatim>\<open>value()\<close> on the empty optional.
\<close>

definition tries_midsplit :: "globals_t \<Rightarrow> nat \<Rightarrow> aabb3d \<Rightarrow> bool option \<Rightarrow> error + bool" where
  "tries_midsplit G n nb forced_quick_tree =
     (if n = 0 then Inr False
      else if forced_quick_tree = None \<or> forced_quick_tree = Some True then
        (case (if forced_quick_tree = None then midsplit_auto G n nb else forced_quick_tree) of
           None \<Rightarrow> Inl BadOptionalAccess
         | Some q \<Rightarrow> Inr q)
      else Inr False)"

text \<open>The counters of one candidate plane.\<close>

record test_counts =
  ct_front :: int
  ct_back :: int
  ct_both :: int
  ct_facing :: int
  ct_splits :: int
  ct_epsilonbrush :: int
  ct_hintsplit :: bool

text \<open>
  The loop that classifies every brush against the candidate plane \<open>ppn\<close> of the side
  with plane number \<open>spn\<close>. The three out-parameters are passed as non-null pointers;
  \<^verbatim>\<open>bsplits\<close> is uninitialised and overwritten by the callee. The result is the list
  of the brushes with their marks, or the fatal error.
\<close>

definition mark_tested :: "planenum_t \<Rightarrow> bspbrush_t \<Rightarrow> bspbrush_t" where
  "mark_tested spn t =
     t\<lparr>sides := map (\<lambda>ts. if planenum ts AND NOT 1 = spn AND NOT 1 then ts\<lparr>tested := True\<rparr> else ts)
                    (sides t)\<rparr>"

text \<open>The marks that the loop leaves in a brush classified as \<open>s\<close>, and the counters
  after it.\<close>

definition mark_test :: "planenum_t \<Rightarrow> int \<Rightarrow> bspbrush_t \<Rightarrow> bspbrush_t" where
  "mark_test spn s t =
     (let t = t\<lparr>testside := s\<rparr>
      in if s AND PSIDE_FACING \<noteq> 0 then mark_tested spn t else t)"

definition count_test :: "int \<Rightarrow> test_counts \<Rightarrow> test_counts" where
  "count_test s c =
     (let c = (if s AND PSIDE_FACING \<noteq> 0 then c\<lparr>ct_facing := ct_facing c + 1\<rparr> else c);
          c = (if s AND PSIDE_FRONT \<noteq> 0 then c\<lparr>ct_front := ct_front c + 1\<rparr> else c);
          c = (if s AND PSIDE_BACK \<noteq> 0 then c\<lparr>ct_back := ct_back c + 1\<rparr> else c);
          c = (if s = PSIDE_BOTH then c\<lparr>ct_both := ct_both c + 1\<rparr> else c)
      in c)"

fun test_brushes ::
  "globals_t \<Rightarrow> planenum_t \<Rightarrow> planenum_t \<Rightarrow> bspbrush_t list \<Rightarrow> test_counts
   \<Rightarrow> error + (bspbrush_t list \<times> test_counts)" where
  "test_brushes G ppn spn [] c = Inr ([], c)"
| "test_brushes G ppn spn (t # ts) c =
     (case TestBrushToPlanenum G t ppn (Some 0) (Some (ct_hintsplit c)) (Some (ct_epsilonbrush c)) of
        (s, bsplits, hintsplit, epsilonbrush) \<Rightarrow>
          (let c = c\<lparr>ct_splits := ct_splits c + the bsplits,
                     ct_hintsplit := the hintsplit,
                     ct_epsilonbrush := the epsilonbrush\<rparr>
           in if the bsplits \<noteq> 0 \<and> s AND PSIDE_FACING \<noteq> 0 then Inl FacingWithSplits
              else
                (case test_brushes G ppn spn ts (count_test s c) of
                   Inl e \<Rightarrow> Inl e
                 | Inr (ts', c') \<Rightarrow> Inr (mark_test spn s t # ts', c'))))"

text \<open>The value estimate of a candidate. The counters are C \<^verbatim>\<open>int\<close>s; they are
  unbounded integers here (an overflow is undefined behaviour in the source).\<close>

definition plane_value :: "test_counts \<Rightarrow> bool \<Rightarrow> bool \<Rightarrow> int" where
  "plane_value c axial side_is_hint =
     (let v = 5 * ct_facing c - 5 * ct_splits c - \<bar>ct_front c - ct_back c\<bar>;
          v = (if axial then v + 5 else v);
          v = v - ct_epsilonbrush c * 1000;
          v = (if ct_hintsplit c \<and> \<not> side_is_hint then - 9999999 else v)
      in v)"

text \<open>The state of the search: the brushes with their marks, the statistics, and the best
  side so far as the pair of the index of its brush and its index among the sides.\<close>

record select_state =
  sel_brushes :: "bspbrush_t list"
  sel_stats :: bspstats_t
  bestside :: "(nat \<times> nat) option"
  bestvalue :: int

text \<open>The body of the loop over the sides, for side \<open>si\<close> of brush \<open>bi\<close> in pass
  \<open>pass\<close>, at node \<open>n\<close> of the tree \<open>t\<close>.\<close>

definition select_side_step ::
  "globals_t \<Rightarrow> tree_t \<Rightarrow> nat \<Rightarrow> nat \<Rightarrow> nat \<times> nat \<Rightarrow> select_state \<Rightarrow> (error + select_state) option" where
  "select_side_step G t n pass bsi st =
     (let sd = sides (sel_brushes st ! fst bsi) ! snd bsi
      in if bevel sd then Some (Inr st)
         else if side_w sd = [] then Some (Inr st)
         else if onnode sd then Some (Inr st)
         else if tested sd then Some (Inr st)
         else if is_hintskip (side_get_texinfo G sd) then Some (Inr st)
         else if visible sd \<noteq> (pass < 2) then Some (Inr st)
         else
           (let positive_planenum = planenum sd AND NOT 1;
                plane = side_get_positive_plane G sd
            in case CheckPlaneAgainstParents positive_planenum t n of
                 None \<Rightarrow> None
               | Some (Inl e) \<Rightarrow> Some (Inl e)
               | Some (Inr _) \<Rightarrow>
                   (case volume (nodes t ! n) of
                      None \<Rightarrow> Some (Inl NullVolume)
                    | Some vol \<Rightarrow>
                        (case CheckPlaneAgainstVolume G positive_planenum vol (sel_stats st) of
                           (good, stats') \<Rightarrow>
                             if \<not> good then Some (Inr (st\<lparr>sel_stats := stats'\<rparr>))
                             else
                               (case test_brushes G positive_planenum (planenum sd) (sel_brushes st)
                                       \<lparr>ct_front = 0, ct_back = 0, ct_both = 0, ct_facing = 0,
                                        ct_splits = 0, ct_epsilonbrush = 0, ct_hintsplit = False\<rparr> of
                                  Inl e \<Rightarrow> Some (Inl e)
                                | Inr (brushes', c) \<Rightarrow>
                                    (let v = plane_value c (is_axial (ptype plane))
                                               (is_hint (side_get_texinfo G sd))
                                     in if v > bestvalue st
                                        then Some (Inr \<lparr>sel_brushes = map (\<lambda>b. b\<lparr>side := testside b\<rparr>) brushes',
                                                        sel_stats = stats', bestside = Some bsi,
                                                        bestvalue = v\<rparr>)
                                        else Some (Inr (st\<lparr>sel_brushes := brushes',
                                                           sel_stats := stats'\<rparr>))))))))"

fun select_sides ::
  "globals_t \<Rightarrow> tree_t \<Rightarrow> nat \<Rightarrow> nat \<Rightarrow> (nat \<times> nat) list \<Rightarrow> select_state \<Rightarrow> (error + select_state) option" where
  "select_sides G t n pass [] st = Some (Inr st)"
| "select_sides G t n pass (bsi # rest) st =
     (case select_side_step G t n pass bsi st of
        None \<Rightarrow> None
      | Some (Inl e) \<Rightarrow> Some (Inl e)
      | Some (Inr st') \<Rightarrow> select_sides G t n pass rest st')"

text \<open>\<^verbatim>\<open>brush->mapbrush->contents.is_any_detail(...)\<close>; a null \<^verbatim>\<open>mapbrush\<close> is
  undefined behaviour in the source.\<close>

definition brush_is_detail :: "globals_t \<Rightarrow> bspbrush_t \<Rightarrow> bool" where
  "brush_is_detail G b = is_any_detail (target_game (qbsp_options G)) (mapbrush_contents (the (mapbrush b)))"

text \<open>The sides that pass \<open>pass\<close> visits, in order: all sides of the brushes whose
  detail flag fits the pass (odd passes take the detail brushes).\<close>

definition pass_sides :: "globals_t \<Rightarrow> nat \<Rightarrow> bspbrush_t list \<Rightarrow> (nat \<times> nat) list" where
  "pass_sides G pass brushes =
     concat (map (\<lambda>bi. if brush_is_detail G (brushes ! bi) = odd pass
                        then map (\<lambda>si. (bi, si)) [0..<length (sides (brushes ! bi))]
                        else [])
                 [0..<length brushes])"

text \<open>The loop over the passes: it stops after the first pass that has found a side, and
  returns that pass.\<close>

fun select_passes ::
  "globals_t \<Rightarrow> tree_t \<Rightarrow> nat \<Rightarrow> nat list \<Rightarrow> select_state \<Rightarrow> (error + (select_state \<times> nat option)) option" where
  "select_passes G t n [] st = Some (Inr (st, None))"
| "select_passes G t n (pass # rest) st =
     (case select_sides G t n pass (pass_sides G pass (sel_brushes st)) st of
        None \<Rightarrow> None
      | Some (Inl e) \<Rightarrow> Some (Inl e)
      | Some (Inr st') \<Rightarrow>
          if bestside st' \<noteq> None then Some (Inr (st', Some pass))
          else select_passes G t n rest st')"

definition clear_tested :: "bspbrush_t list \<Rightarrow> bspbrush_t list" where
  "clear_tested brushes = map (\<lambda>b. b\<lparr>sides := map (\<lambda>s. s\<lparr>tested := False\<rparr>) (sides b)\<rparr>) brushes"

text \<open>The second half of \<^verbatim>\<open>SelectSplitPlane\<close>: the four passes. The result is the
  plane, the brushes with their marks, the tree (the node may get its
  \<^verbatim>\<open>detail_separator\<close> flag) and the statistics.\<close>

definition select_heuristic ::
  "globals_t \<Rightarrow> tree_t \<Rightarrow> nat \<Rightarrow> bspbrush_t list \<Rightarrow> bspstats_t
   \<Rightarrow> (error + (planenum_t option \<times> bspbrush_t list \<times> tree_t \<times> bspstats_t)) option" where
  "select_heuristic G t n brushes stats =
     (case select_passes G t n [0, 1, 2, 3]
             \<lparr>sel_brushes = brushes, sel_stats = stats, bestside = None, bestvalue = - 99999\<rparr> of
        None \<Rightarrow> None
      | Some (Inl e) \<Rightarrow> Some (Inl e)
      | Some (Inr (st, found)) \<Rightarrow>
          (let t' = (case found of
                       Some pass \<Rightarrow> if pass > 0 then node_upd n (\<lambda>nd. nd\<lparr>detail_separator := True\<rparr>) t else t
                     | None \<Rightarrow> t);
               brushes' = clear_tested (sel_brushes st)
           in case bestside st of
                None \<Rightarrow> Some (Inr (None, brushes', t', sel_stats st))
              | Some (bi, si) \<Rightarrow>
                  (let bs = sides (brushes' ! bi) ! si;
                       stats' = (if \<not> visible bs then (sel_stats st)\<lparr>c_nonvis := c_nonvis (sel_stats st) + 1\<rparr>
                                 else sel_stats st);
                       stats' = stats'\<lparr>c_qbsp3 := c_qbsp3 stats' + 1\<rparr>
                   in Some (Inr (Some (planenum bs AND NOT 1), brushes', t', stats')))))"

text \<open>
  \<^verbatim>\<open>SelectSplitPlane(brushes, node, forced_quick_tree, stats)\<close> for the node \<open>n\<close> of
  the tree \<open>t\<close>. \<open>None\<close> is a call that does not return; \<open>Some (Inl e)\<close> a fatal
  error; \<open>Some (Inr (plane, brushes, tree, stats))\<close> the returned optional plane with the state
  the call leaves behind.
\<close>

definition SelectSplitPlane ::
  "globals_t \<Rightarrow> tree_t \<Rightarrow> nat \<Rightarrow> bspbrush_t list \<Rightarrow> bool option \<Rightarrow> bspstats_t
   \<Rightarrow> (error + (planenum_t option \<times> bspbrush_t list \<times> tree_t \<times> bspstats_t)) option" where
  "SelectSplitPlane G t n brushes forced_quick_tree stats =
     (if brushes = [] then Some (Inr (None, brushes, t, stats))
      else
        (case tries_midsplit G (length brushes) (node_bounds (nodes t ! n)) forced_quick_tree of
           Inl e \<Rightarrow> Some (Inl e)
         | Inr False \<Rightarrow> select_heuristic G t n brushes stats
         | Inr True \<Rightarrow>
             (case ChooseMidPlaneFromList G brushes (nodes t ! n) stats of
                Inl e \<Rightarrow> Some (Inl e)
              | Inr (Some mid_plane, stats') \<Rightarrow>
                  Some (Inr (Some mid_plane,
                             map (\<lambda>b. b\<lparr>side := fst (TestBrushToPlanenum G b mid_plane None None None)\<rparr>) brushes,
                             t, stats'\<lparr>c_midsplit := c_midsplit stats' + 1\<rparr>))
              | Inr (None, stats') \<Rightarrow> select_heuristic G t n brushes stats')))"

section \<open>BuildTree_r and BrushBSP\<close>

text \<open>\<^verbatim>\<open>brush->original_brush()\<close>: the original of a brush, or the brush itself.\<close>

definition original_brush :: "bspbrush_t \<Rightarrow> bspbrush_base" where
  "original_brush b = (case original_ptr b of Some p \<Rightarrow> p | None \<Rightarrow> bspbrush_base.truncate b)"

text \<open>\<^verbatim>\<open>LeafNode(leafnode, brushes, stats)\<close> for the node \<open>n\<close> (its face list is not
  part of the model).\<close>

definition LeafNode :: "globals_t \<Rightarrow> tree_t \<Rightarrow> nat \<Rightarrow> bspbrush_t list \<Rightarrow> bspstats_t \<Rightarrow> tree_t \<times> bspstats_t" where
  "LeafNode G t n brushes stats =
     (let game = target_game (qbsp_options G);
          c = fold (\<lambda>b c. combine_contents game c (contents b)) brushes (create_empty_contents game)
      in (node_upd n (\<lambda>nd. nd\<lparr>is_leaf := True, node_contents := c,
                                 original_brushes := original_brushes nd @ map original_brush brushes,
                                 volume := None\<rparr>) t,
          stats\<lparr>leafstats := c # leafstats stats\<rparr>))"

text \<open>The loop that tightens the bounds of the two children \<open>k0\<close> and \<open>k1\<close> on the
  first axis whose normal component is exactly 1.\<close>

definition tighten_children :: "qbsp_plane_t \<Rightarrow> nat \<Rightarrow> nat \<Rightarrow> tree_t \<Rightarrow> tree_t" where
  "tighten_children plane k0 k1 t =
     (case filter (\<lambda>i. vec_at (normal plane) i = 1) [0, 1, 2] of
        [] \<Rightarrow> t
      | i # _ \<Rightarrow>
          node_upd k1 (\<lambda>nd. nd\<lparr>node_bounds := (node_bounds nd)\<lparr>maxs := vec_set (maxs (node_bounds nd)) i (dist plane)\<rparr>\<rparr>)
            (node_upd k0 (\<lambda>nd. nd\<lparr>node_bounds := (node_bounds nd)\<lparr>mins := vec_set (mins (node_bounds nd)) i (dist plane)\<rparr>\<rparr>) t))"

text \<open>The allocation of the two children of the node \<open>n\<close>, each with the parent pointer
  and the bounds of \<open>n\<close>: the children's pointers and the tree.\<close>

definition alloc_children :: "globals_t \<Rightarrow> nat \<Rightarrow> tree_t \<Rightarrow> nat \<times> nat \<times> tree_t" where
  "alloc_children G n t =
     (case create_node G t of
        (k0, t) \<Rightarrow>
          (let t = node_upd n (\<lambda>nd. nd\<lparr>children := (Some k0, snd (children nd))\<rparr>) t;
               t = node_upd k0 (\<lambda>nd. nd\<lparr>parent := Some n, node_bounds := node_bounds (nodes t ! n)\<rparr>) t
           in case create_node G t of
                (k1, t) \<Rightarrow>
                  (let t = node_upd n (\<lambda>nd. nd\<lparr>children := (fst (children nd), Some k1)\<rparr>) t;
                       t = node_upd k1 (\<lambda>nd. nd\<lparr>parent := Some n, node_bounds := node_bounds (nodes t ! n)\<rparr>) t
                   in (k0, k1, t))))"

text \<open>
  \<^verbatim>\<open>BuildTree_r(tree, node, brushes, forced_quick_tree, stats)\<close> for the node \<open>n\<close>.
  The source builds the two subtrees in two parallel tasks, which share the statistics
  (atomic counters) and the arena; the model builds the front subtree, then the back
  subtree. The recursion ends when \<^verbatim>\<open>SelectSplitPlane\<close> finds no plane; a run that
  never ends is the value \<open>None\<close>.
\<close>

partial_function (option) BuildTree_r ::
  "globals_t \<Rightarrow> tree_t \<Rightarrow> nat \<Rightarrow> bspbrush_t list \<Rightarrow> bool option \<Rightarrow> bspstats_t
   \<Rightarrow> (error + (tree_t \<times> bspstats_t)) option" where
  "BuildTree_r G t n brushes forced_quick_tree stats =
     (case SelectSplitPlane G t n brushes forced_quick_tree stats of
        None \<Rightarrow> None
      | Some (Inl e) \<Rightarrow> Some (Inl e)
      | Some (Inr (None, brushes, t, stats)) \<Rightarrow>
          (let t = node_upd n (\<lambda>nd. nd\<lparr>is_leaf := True\<rparr>) t;
               stats = stats\<lparr>c_leafs := c_leafs stats + 1\<rparr>
           in Some (Inr (LeafNode G t n brushes stats)))
      | Some (Inr (Some bestplane, brushes, t, stats)) \<Rightarrow>
          (let stats = stats\<lparr>c_nodes := c_nodes stats + 1\<rparr>
           in if bestplane AND 1 \<noteq> 0 then Some (Inl AssertionFailed)
              else
                (let t = node_upd n (\<lambda>nd. nd\<lparr>node_planenum := bestplane\<rparr>) t;
                     plane = get_plane G bestplane
                 in case SplitBrushList G brushes bestplane stats of
                      (children0, children1, stats) \<Rightarrow>
                        (case alloc_children G n t of
                           (k0, k1, t) \<Rightarrow>
                             (let t = tighten_children plane k0 k1 t
                              in case volume (nodes t ! n) of
                                   None \<Rightarrow> Some (Inl NullVolume)
                                 | Some vol \<Rightarrow>
                                     (case SplitBrush G vol bestplane stats of
                                        ((v0, v1), stats) \<Rightarrow>
                                          (let t = node_upd n (\<lambda>nd. nd\<lparr>volume := None\<rparr>) t;
                                               t = node_upd k0 (\<lambda>nd. nd\<lparr>volume := v0\<rparr>) t;
                                               t = node_upd k1 (\<lambda>nd. nd\<lparr>volume := v1\<rparr>) t
                                           in Option.bind (BuildTree_r G t k0 children0 forced_quick_tree stats)
                                                (\<lambda>r. case r of
                                                   Inl e \<Rightarrow> Some (Inl e)
                                                 | Inr (t, stats) \<Rightarrow>
                                                     BuildTree_r G t k1 children1 forced_quick_tree stats))))))))"

definition SIDESPACE :: vec_t where
  "SIDESPACE = 24"

text \<open>A side and a brush as \<^verbatim>\<open>sides.resize(6)\<close> and \<^verbatim>\<open>make_ptr()\<close> leave them.\<close>

definition new_side :: side_t where
  "new_side = \<lparr>planenum = 0, texinfo = 0, side_w = [], onnode = False, bevel = False,
     tested = False, visible = False\<rparr>"

definition new_brush :: "globals_t \<Rightarrow> bspbrush_t" where
  "new_brush G = \<lparr>sides = [], bounds = box_empty (kernel G), contents = 0, mapbrush = None,
     side = 0, testside = 0, original_ptr = None\<rparr>"

definition axis_vec :: "nat \<Rightarrow> vec_t \<Rightarrow> qvec3d" where
  "axis_vec i a = vec_set (qvec3d 0 0 0) i a"

definition axis_type :: "nat \<Rightarrow> plane_type_t" where
  "axis_type i = (if i = 0 then PLANE_X else if i = 1 then PLANE_Y else PLANE_Z)"

text \<open>One round of the loop of \<^verbatim>\<open>BrushFromBounds\<close>: the state is the brush and the
  map, whose registry the insertion of a plane may extend. The type tag of the plane is the
  one of its axis.\<close>

definition bounds_axis_step :: "globals_t \<Rightarrow> aabb3d \<Rightarrow> nat \<Rightarrow> bspbrush_t \<times> mapdata_t \<Rightarrow> bspbrush_t \<times> mapdata_t" where
  "bounds_axis_step G bnds i acc =
     (case add_or_find_plane (kernel G) (snd acc)
             \<lparr>normal = axis_vec i 1, dist = vec_at (maxs bnds) i, ptype = axis_type i\<rparr> of
        (pn1, md1) \<Rightarrow>
          (case add_or_find_plane (kernel G) md1
                  \<lparr>normal = axis_vec i (- 1), dist = - vec_at (mins bnds) i, ptype = axis_type i\<rparr> of
             (pn2, md2) \<Rightarrow>
               ((fst acc)\<lparr>sides := (sides (fst acc))[i := (sides (fst acc) ! i)\<lparr>planenum := pn1\<rparr>,
                                                      3 + i := (sides (fst acc) ! (3 + i))\<lparr>planenum := pn2\<rparr>]\<rparr>,
                md2)))"

definition BrushFromBounds :: "globals_t \<Rightarrow> aabb3d \<Rightarrow> bspbrush_t \<times> mapdata_t" where
  "BrushFromBounds G bnds =
     (case fold (bounds_axis_step G bnds) [0, 1, 2]
             ((new_brush G)\<lparr>sides := replicate 6 new_side\<rparr>, mapdata G) of
        (b, md) \<Rightarrow> (CreateBrushWindings (kernel G) md b, md))"

definition new_stats :: bspstats_t where
  "new_stats = \<lparr>leafstats = [], c_nodes = 0, c_nonvis = 0, c_qbsp3 = 0, c_blocksplit = 0,
     c_midsplit = 0, c_leafs = 0, c_bogus = 0, c_brushesremoved = 0, c_brushesonesided = 0,
     c_tinyvolumes = 0\<rparr>"

text \<open>The tree of an entity without brushes: a head node on plane 0 with two empty
  leaves.\<close>

definition empty_hull :: "globals_t \<Rightarrow> mapentity_t \<Rightarrow> tree_t" where
  "empty_hull G entity =
     (case create_node G (new_tree G) of
        (hn, t) \<Rightarrow>
          (let t = node_upd hn (\<lambda>nd. nd\<lparr>node_bounds := entity_bounds entity, node_planenum := 0\<rparr>) t
           in case create_node G t of
                (k0, t) \<Rightarrow>
                  (let t = node_upd hn (\<lambda>nd. nd\<lparr>children := (Some k0, snd (children nd))\<rparr>) t;
                       t = node_upd k0 (\<lambda>nd. nd\<lparr>is_leaf := True,
                             node_contents := create_empty_contents (target_game (qbsp_options G)),
                             parent := Some hn\<rparr>) t
                   in case create_node G t of
                        (k1, t) \<Rightarrow>
                          (let t = node_upd hn (\<lambda>nd. nd\<lparr>children := (fst (children nd), Some k1)\<rparr>) t;
                               t = node_upd k1 (\<lambda>nd. nd\<lparr>is_leaf := True,
                                     node_contents := create_empty_contents (target_game (qbsp_options G)),
                                     parent := Some hn\<rparr>) t
                           in t\<lparr>tree_bounds := node_bounds (nodes t ! hn), headnode := Some hn\<rparr>))))"

text \<open>
  \<^verbatim>\<open>BrushBSP(entity, brushlist, forced_quick_tree)\<close>: the tree and the map (whose plane
  registry \<^verbatim>\<open>BrushFromBounds\<close> may extend). The counts of faces are only printed. The
  brushes of the caller are shared with the builder, which leaves its marks in them and
  resets their \<^verbatim>\<open>onnode\<close> flags at the end; the model returns the tree only.
\<close>

definition BrushBSP ::
  "globals_t \<Rightarrow> mapentity_t \<Rightarrow> bspbrush_t list \<Rightarrow> bool option \<Rightarrow> (error + (tree_t \<times> mapdata_t)) option" where
  "BrushBSP G entity brushlist forced_quick_tree =
     (if brushlist = [] then Some (Inr (empty_hull G entity, mapdata G))
      else
        (let t = new_tree G;
             t = t\<lparr>tree_bounds := fold (\<lambda>b acc. box_union (kernel G) acc (bounds b)) brushlist (tree_bounds t)\<rparr>
         in case create_node G t of
              (n, t) \<Rightarrow>
                (case BrushFromBounds G (box_grow (kernel G) (tree_bounds t) SIDESPACE) of
                   (vol, md) \<Rightarrow>
                     (let t = node_upd n (\<lambda>nd. nd\<lparr>volume := Some vol,
                                node_bounds := box_grow (kernel G) (tree_bounds t) SIDESPACE\<rparr>) t;
                          t = t\<lparr>headnode := Some n\<rparr>
                      in case BuildTree_r (G\<lparr>mapdata := md\<rparr>) t n brushlist forced_quick_tree new_stats of
                           None \<Rightarrow> None
                         | Some (Inl e) \<Rightarrow> Some (Inl e)
                         | Some (Inr (t', stats)) \<Rightarrow> Some (Inr (t', md))))))"

section \<open>ChopBrushes\<close>

text \<open>\<^verbatim>\<open>BrushGE(b1, b2)\<close>: whether \<open>b1\<close> is allowed to bite \<open>b2\<close>.\<close>

definition BrushGE :: "globals_t \<Rightarrow> bspbrush_t \<Rightarrow> bspbrush_t \<Rightarrow> bool" where
  "BrushGE G b1 b2 =
     (if brush_is_detail G b1 \<and> \<not> brush_is_detail G b2 then False
      else if is_solid (target_game (qbsp_options G)) (mapbrush_contents (the (mapbrush b1))) then True
      else False)"

definition BrushesDisjoint :: "globals_t \<Rightarrow> bspbrush_t \<Rightarrow> bspbrush_t \<Rightarrow> bool" where
  "BrushesDisjoint G a b =
     (if disjoint_or_touching (kernel G) (bounds a) (bounds b) then True
      else if list_ex (\<lambda>as. list_ex (\<lambda>bs. planenum as = planenum bs XOR 1) (sides b)) (sides a) then True
      else False)"

text \<open>
  \<^verbatim>\<open>SubtractBrush(a, b)\<close>. The loop over the sides of \<open>b\<close> has the state
  \<open>(out, in)\<close>; it stops with the result \<open>[a]\<close> as soon as nothing is left behind a
  plane. The statistics of the splits are a local variable that is never read.
\<close>

fun subtract_loop :: "globals_t \<Rightarrow> bspbrush_t \<Rightarrow> side_t list \<Rightarrow> bspbrush_t list \<Rightarrow> bspbrush_t \<Rightarrow> bspbrush_t list" where
  "subtract_loop G a [] out inb = out"
| "subtract_loop G a (s # ss) out inb =
     (case fst (SplitBrush G inb (planenum s) new_stats) of
        (front, back) \<Rightarrow>
          (let out = (case front of None \<Rightarrow> out | Some f \<Rightarrow> f # out)
           in case back of
                None \<Rightarrow> [a]
              | Some inb' \<Rightarrow> subtract_loop G a ss out inb'))"

definition SubtractBrush :: "globals_t \<Rightarrow> bspbrush_t \<Rightarrow> bspbrush_t \<Rightarrow> bspbrush_t list" where
  "SubtractBrush G a b = subtract_loop G a (sides b) [] a"

definition SIZE_MAX :: nat where
  "SIZE_MAX = 2 ^ 64 - 1"

text \<open>
  What the body of the inner loop of \<^verbatim>\<open>ChopBrushes\<close> does with the pair
  \<open>(b1, b2)\<close>: it goes on with the next \<open>b2\<close> (\<open>Continue\<close>), or changes the list
  and starts again at the label \<^verbatim>\<open>newlist\<close>. The brushes are held by value, so the
  comparison of the pointers \<^verbatim>\<open>sub.front() == b1\<close> is the comparison of the brushes.
\<close>

datatype chop_action =
  Continue
| SwallowB1
| SwallowB2
| ReplaceB1 "bspbrush_t list"
| ReplaceB2 "bspbrush_t list"

definition chop_pair :: "globals_t \<Rightarrow> bspbrush_t \<Rightarrow> bspbrush_t \<Rightarrow> chop_action" where
  "chop_pair G b1 b2 =
     (if BrushesDisjoint G b1 b2 then Continue
      else
        (let ge21 = BrushGE G b2 b1;
             sub = (if ge21 then SubtractBrush G b1 b2 else [])
         in if ge21 \<and> length sub = 1 \<and> hd sub = b1 then Continue
            else if ge21 \<and> sub = [] then SwallowB1
            else
              (let c1 = (if ge21 then length sub else SIZE_MAX);
                   ge12 = BrushGE G b1 b2;
                   sub2 = (if ge12 then SubtractBrush G b2 b1 else [])
               in if ge12 \<and> length sub2 = 1 \<and> hd sub2 = b2 then Continue
                  else if ge12 \<and> sub2 = [] then SwallowB2
                  else
                    (let c2 = (if ge12 then length sub2 else SIZE_MAX)
                     in if sub = [] \<and> sub2 = [] then Continue
                        else if c1 > 1 \<and> c2 > 1 then Continue
                        else if c1 < c2 then ReplaceB1 sub
                        else ReplaceB2 sub2))))"







section \<open>The candidates of the midsplit method\<close>

text \<open>
  The planes that the loop of \<^verbatim>\<open>ChooseMidPlaneFromList\<close> compares, in the order of the
  loop: for every side that is neither a bevel nor on a node, and whose positive plane
  splits the volume of the node into two halves (\<^verbatim>\<open>CheckPlaneAgainstVolume\<close>), the
  positive plane number, whether the plane is axial, and its metric (if it is a number).
\<close>

record mid_cand =
  cand_plane :: planenum_t
  cand_axial :: bool
  cand_metric :: vec_t

definition plane_splits_volume :: "globals_t \<Rightarrow> bspbrush_t \<Rightarrow> planenum_t \<Rightarrow> bool" where
  "plane_splits_volume G vol pn = fst (CheckPlaneAgainstVolume G pn vol new_stats)"

definition side_cand :: "globals_t \<Rightarrow> bspbrush_t \<Rightarrow> aabb3d \<Rightarrow> side_t \<Rightarrow> mid_cand option" where
  "side_cand G vol nb s =
     (if mid_candidate s \<and> plane_splits_volume G vol (planenum s AND NOT 1) then
        (case SplitPlaneMetric G (side_get_positive_plane G s) nb of
           None \<Rightarrow> None
         | Some m \<Rightarrow> Some \<lparr>cand_plane = planenum s AND NOT 1,
                           cand_axial = is_axial (ptype (side_get_positive_plane G s)),
                           cand_metric = m\<rparr>)
      else None)"

definition mid_candidates :: "globals_t \<Rightarrow> bspbrush_t \<Rightarrow> aabb3d \<Rightarrow> bspbrush_t list \<Rightarrow> mid_cand list" where
  "mid_candidates G vol nb brushes =
     concat (map (\<lambda>brush. List.map_filter (side_cand G vol nb) (sides brush)) brushes)"

text \<open>The two running bests of the loop, \<open>((bestaxialmetric, bestaxialplane),
  (bestanymetric, bestanyplane))\<close>, and their update for one candidate.\<close>

definition best_step ::
  "mid_cand \<Rightarrow> (vec_t \<times> planenum_t option) \<times> (vec_t \<times> planenum_t option)
   \<Rightarrow> (vec_t \<times> planenum_t option) \<times> (vec_t \<times> planenum_t option)" where
  "best_step c acc =
     (if cand_axial c \<and> cand_metric c < fst (fst acc) then (cand_metric c, Some (cand_plane c)) else fst acc,
      if cand_metric c < fst (snd acc) then (cand_metric c, Some (cand_plane c)) else snd acc)"

definition mid_bests :: "midplane_state \<Rightarrow> (vec_t \<times> planenum_t option) \<times> (vec_t \<times> planenum_t option)" where
  "mid_bests st = ((bestaxialmetric st, bestaxialplane st), (bestanymetric st, bestanyplane st))"


section \<open>The pairs that ChopBrushes leaves alone\<close>

text \<open>
  The number that \<^verbatim>\<open>ChopBrushes\<close> compares with 1 for the subtraction \<open>a - b\<close>: the
  number of fragments if \<open>b\<close> is allowed to bite \<open>a\<close>, and \<^verbatim>\<open>SIZE_MAX\<close> (the initial
  value of \<^verbatim>\<open>c1\<close> and \<^verbatim>\<open>c2\<close>) if it is not, in which case the subtraction is not
  computed.
\<close>

definition fragments :: "globals_t \<Rightarrow> bspbrush_t \<Rightarrow> bspbrush_t \<Rightarrow> nat" where
  "fragments G a b = (if BrushGE G b a then length (SubtractBrush G a b) else SIZE_MAX)"

text \<open>
  The five \<^verbatim>\<open>continue\<close> statements of the inner loop, as a property of the pair
  \<open>(a, b)\<close>, \<open>a\<close> before \<open>b\<close> in the list: the brushes are disjoint for
  \<^verbatim>\<open>BrushesDisjoint\<close>; or \<open>b\<close> may bite \<open>a\<close> and the subtraction gives \<open>a\<close> back
  (``didn't really intersect''); or the same with \<open>a\<close> and \<open>b\<close> exchanged, which is
  reached unless \<open>a\<close> has just been swallowed; or neither brush may bite the other; or both
  counts are above 1.
\<close>

definition pair_skipped :: "globals_t \<Rightarrow> bspbrush_t \<Rightarrow> bspbrush_t \<Rightarrow> bool" where
  "pair_skipped G a b =
     (BrushesDisjoint G a b
      \<or> (BrushGE G b a \<and> SubtractBrush G a b = [a])
      \<or> (BrushGE G a b \<and> SubtractBrush G b a = [b] \<and> (BrushGE G b a \<and> SubtractBrush G a b = []) = False)
      \<or> (BrushGE G b a = False \<and> BrushGE G a b = False)
      \<or> (1 < fragments G a b \<and> 1 < fragments G b a))"

text \<open>
  The brushes that can be in the list of \<^verbatim>\<open>ChopBrushes\<close>: the brushes of the input,
  and the fragments that replace a brush of the list (\<^verbatim>\<open>list.splice(list.end(), sub)\<close>)
  when the inner loop decides so for two brushes that can be in the list.
\<close>

inductive_set chop_reach :: "globals_t \<Rightarrow> bspbrush_t list \<Rightarrow> bspbrush_t set"
  for G :: globals_t and brushes :: "bspbrush_t list" where
  reach_input: "x \<in> set brushes \<Longrightarrow> x \<in> chop_reach G brushes"
| reach_b1: "a \<in> chop_reach G brushes \<Longrightarrow> b \<in> chop_reach G brushes \<Longrightarrow>
     chop_pair G a b = ReplaceB1 sub \<Longrightarrow> x \<in> set sub \<Longrightarrow> x \<in> chop_reach G brushes"
| reach_b2: "a \<in> chop_reach G brushes \<Longrightarrow> b \<in> chop_reach G brushes \<Longrightarrow>
     chop_pair G a b = ReplaceB2 sub2 \<Longrightarrow> x \<in> set sub2 \<Longrightarrow> x \<in> chop_reach G brushes"


text \<open>
  \<open>kept_first G n xs\<close>: each of the first \<open>n\<close> brushes of \<open>xs\<close> has been compared with
  every later brush of \<open>xs\<close>, and the inner loop went on every time.
\<close>

fun kept_first :: "globals_t \<Rightarrow> nat \<Rightarrow> bspbrush_t list \<Rightarrow> bool" where
  "kept_first G 0 xs = True"
| "kept_first G (Suc n) [] = True"
| "kept_first G (Suc n) (x # xs) = (list_all (\<lambda>y. chop_pair G x y = Continue) xs \<and> kept_first G n xs)"


section \<open>A reference kernel and concrete inputs\<close>

text \<open>
  An executable kernel for the concrete inputs below. Windings are clipped exactly, with
  the split points on the edges that cross the plane. Lengths and areas are measured in
  the taxicab norm, which is the Euclidean one on the axis-parallel edges and the
  axis-aligned faces of a box. It stands for the kernel of the program in the examples
  only: no theorem depends on it.
\<close>

fun vec_sub :: "qvec3d \<Rightarrow> qvec3d \<Rightarrow> qvec3d" where
  "vec_sub (qvec3d a b c) (qvec3d x y z) = qvec3d (a - x) (b - y) (c - z)"

fun vec_add :: "qvec3d \<Rightarrow> qvec3d \<Rightarrow> qvec3d" where
  "vec_add (qvec3d a b c) (qvec3d x y z) = qvec3d (a + x) (b + y) (c + z)"

fun vec_scale :: "vec_t \<Rightarrow> qvec3d \<Rightarrow> qvec3d" where
  "vec_scale k (qvec3d x y z) = qvec3d (k * x) (k * y) (k * z)"

fun vec_cross :: "qvec3d \<Rightarrow> qvec3d \<Rightarrow> qvec3d" where
  "vec_cross (qvec3d a b c) (qvec3d x y z) = qvec3d (b * z - c * y) (c * x - a * z) (a * y - b * x)"

fun vec_taxicab :: "qvec3d \<Rightarrow> vec_t" where
  "vec_taxicab (qvec3d x y z) = \<bar>x\<bar> + \<bar>y\<bar> + \<bar>z\<bar>"

text \<open>The walk around a winding: every point with its distance, \<open>first\<close> closing the
  loop; the result is the front and the back polygon.\<close>

fun clip_walk :: "vec_t \<Rightarrow> (qvec3d \<times> vec_t) list \<Rightarrow> qvec3d \<times> vec_t \<Rightarrow> winding_t \<times> winding_t" where
  "clip_walk eps [] first = ([], [])"
| "clip_walk eps (pd # rest) first =
     (let nxt = (case rest of [] \<Rightarrow> first | x # _ \<Rightarrow> x);
          fb = clip_walk eps rest first;
          d1 = snd pd;
          d2 = snd nxt
      in if \<bar>d1\<bar> \<le> eps then (fst pd # fst fb, fst pd # snd fb)
         else
           (let mids = (if \<bar>d2\<bar> \<le> eps \<or> (d1 > eps) = (d2 > eps) then []
                        else [vec_add (fst pd) (vec_scale (d1 / (d1 - d2)) (vec_sub (fst nxt) (fst pd)))])
            in if d1 > eps then (fst pd # mids @ fst fb, mids @ snd fb)
               else (mids @ fst fb, fst pd # mids @ snd fb)))"

definition ref_clip :: "winding_t \<Rightarrow> qbsp_plane_t \<Rightarrow> vec_t \<Rightarrow> winding_t option \<times> winding_t option" where
  "ref_clip wn plane eps =
     (let pds = map (\<lambda>p. (p, plane_dist plane p)) wn
      in if \<not> list_ex (\<lambda>pd. snd pd > eps) pds then (None, Some wn)
         else if \<not> list_ex (\<lambda>pd. snd pd < - eps) pds then (Some wn, None)
         else (case clip_walk eps pds (hd pds) of (f, b) \<Rightarrow> (Some f, Some b)))"

definition ref_clip_back :: "winding_t \<Rightarrow> qbsp_plane_t \<Rightarrow> winding_t option" where
  "ref_clip_back wn plane = snd (ref_clip wn plane 0)"

definition BOGUS_RANGE :: vec_t where
  "BOGUS_RANGE = 65536"

text \<open>A large parallelogram on the plane, around the foot of the origin.\<close>

definition ref_base_winding :: "qbsp_plane_t \<Rightarrow> winding_t" where
  "ref_base_winding plane =
     (let n = normal plane;
          up0 = (if \<bar>vec_at n 2\<bar> > \<bar>vec_at n 0\<bar> \<and> \<bar>vec_at n 2\<bar> > \<bar>vec_at n 1\<bar>
                 then qvec3d 1 0 0 else qvec3d 0 0 1);
          up1 = vec_sub up0 (vec_scale (dot up0 n) n);
          org = vec_scale (dist plane) n;
          vup = vec_scale BOGUS_RANGE up1;
          vright = vec_scale BOGUS_RANGE (vec_cross up1 n)
      in [vec_add (vec_sub org vright) vup, vec_add (vec_add org vright) vup,
          vec_sub (vec_add org vright) vup, vec_sub (vec_sub org vright) vup])"

fun area_fan :: "qvec3d \<Rightarrow> winding_t \<Rightarrow> qvec3d" where
  "area_fan p0 (p1 # p2 # ps) =
     vec_add (vec_cross (vec_sub p1 p0) (vec_sub p2 p0)) (area_fan p0 (p2 # ps))"
| "area_fan p0 ps = qvec3d 0 0 0"

definition ref_area :: "winding_t \<Rightarrow> vec_t" where
  "ref_area wn = (case wn of [] \<Rightarrow> 0 | p0 # ps \<Rightarrow> vec_taxicab (area_fan p0 ps) / 2)"

definition points_box :: "qvec3d list \<Rightarrow> aabb3d" where
  "points_box ps =
     \<lparr>mins = qvec3d (fold min (map (\<lambda>p. vec_at p 0) ps) (vec_at (hd ps) 0))
                    (fold min (map (\<lambda>p. vec_at p 1) ps) (vec_at (hd ps) 1))
                    (fold min (map (\<lambda>p. vec_at p 2) ps) (vec_at (hd ps) 2)),
      maxs = qvec3d (fold max (map (\<lambda>p. vec_at p 0) ps) (vec_at (hd ps) 0))
                    (fold max (map (\<lambda>p. vec_at p 1) ps) (vec_at (hd ps) 1))
                    (fold max (map (\<lambda>p. vec_at p 2) ps) (vec_at (hd ps) 2))\<rparr>"

definition ref_update_bounds :: "settings_t \<Rightarrow> bspbrush_t \<Rightarrow> bool \<times> bspbrush_t" where
  "ref_update_bounds opts b =
     (let ps = concat (map side_w (sides b))
      in if ps = [] then (False, b) else (True, b\<lparr>bounds := points_box ps\<rparr>))"

definition ref_box_volume :: "aabb3d \<Rightarrow> vec_t" where
  "ref_box_volume b = (vec_at (maxs b) 0 - vec_at (mins b) 0) * (vec_at (maxs b) 1 - vec_at (mins b) 1)
      * (vec_at (maxs b) 2 - vec_at (mins b) 2)"

definition ref_box_grow :: "aabb3d \<Rightarrow> vec_t \<Rightarrow> aabb3d" where
  "ref_box_grow b a = \<lparr>mins = vec_sub (mins b) (qvec3d a a a), maxs = vec_add (maxs b) (qvec3d a a a)\<rparr>"

definition ref_box_union :: "aabb3d \<Rightarrow> aabb3d \<Rightarrow> aabb3d" where
  "ref_box_union a b =
     \<lparr>mins = qvec3d (min (vec_at (mins a) 0) (vec_at (mins b) 0)) (min (vec_at (mins a) 1) (vec_at (mins b) 1))
                    (min (vec_at (mins a) 2) (vec_at (mins b) 2)),
      maxs = qvec3d (max (vec_at (maxs a) 0) (vec_at (maxs b) 0)) (max (vec_at (maxs a) 1) (vec_at (maxs b) 1))
                    (max (vec_at (maxs a) 2) (vec_at (maxs b) 2))\<rparr>"

definition ref_disjoint_or_touching :: "aabb3d \<Rightarrow> aabb3d \<Rightarrow> bool" where
  "ref_disjoint_or_touching a b =
     list_ex (\<lambda>i. vec_at (maxs a) i \<le> vec_at (mins b) i \<or> vec_at (maxs b) i \<le> vec_at (mins a) i) [0, 1, 2]"

definition flip_plane :: "qbsp_plane_t \<Rightarrow> qbsp_plane_t" where
  "flip_plane p = p\<lparr>normal := vec_scale (- 1) (normal p), dist := - dist p\<rparr>"

definition ref_add_or_find_plane :: "mapdata_t \<Rightarrow> qbsp_plane_t \<Rightarrow> planenum_t \<times> mapdata_t" where
  "ref_add_or_find_plane md p =
     (case filter (\<lambda>i. planes md ! i = p) [0..<length (planes md)] of
        i # _ \<Rightarrow> (of_nat i, md)
      | [] \<Rightarrow> (of_nat (length (planes md)), md\<lparr>planes := planes md @ [p, flip_plane p]\<rparr>))"

definition ref_side_winding :: "mapdata_t \<Rightarrow> side_t list \<Rightarrow> nat \<Rightarrow> winding_t" where
  "ref_side_winding md ss i =
     (case fold (\<lambda>j wo. if j = i then wo
                         else (case wo of None \<Rightarrow> None
                               | Some wn \<Rightarrow> ref_clip_back wn (planes md ! unat (planenum (ss ! j)))))
             [0..<length ss] (Some (ref_base_winding (planes md ! unat (planenum (ss ! i))))) of
        None \<Rightarrow> [] | Some wn \<Rightarrow> wn)"

definition ref_CreateBrushWindings :: "mapdata_t \<Rightarrow> bspbrush_t \<Rightarrow> bspbrush_t" where
  "ref_CreateBrushWindings md b =
     (let b' = b\<lparr>sides := map (\<lambda>i. (sides b ! i)\<lparr>side_w := ref_side_winding md (sides b) i\<rparr>)
                               [0..<length (sides b)]\<rparr>
      in if concat (map side_w (sides b')) = [] then b'
         else b'\<lparr>bounds := points_box (concat (map side_w (sides b')))\<rparr>)"

definition ref_kernel :: kernel_t where
  "ref_kernel =
     \<lparr>BaseWindingForPlane = ref_base_winding, clip_back = ref_clip_back, clip = ref_clip,
      flip = rev, area = ref_area, vec_length = vec_taxicab, update_bounds = ref_update_bounds,
      box_empty = \<lparr>mins = qvec3d 0 0 0, maxs = qvec3d 0 0 0\<rparr>,
      box_volume = ref_box_volume, box_grow = ref_box_grow, box_union = ref_box_union,
      disjoint_or_touching = ref_disjoint_or_touching,
      add_or_find_plane = ref_add_or_find_plane, CreateBrushWindings = ref_CreateBrushWindings\<rparr>"

text \<open>A game with the contents 0 (empty), 1 (solid), 2 (water) and the detail flag 4.\<close>

definition ex_game :: gamedef_t where
  "ex_game = \<lparr>create_empty_contents = 0, combine_contents = (\<lambda>a b. a OR b),
     is_any_detail = (\<lambda>c. c AND 4 \<noteq> 0), is_solid = (\<lambda>c. c AND 1 \<noteq> 0)\<rparr>"

definition ex_options :: settings_t where
  "ex_options = \<lparr>worldextent = 65536, microvolume = 1 / 100, midsplitbrushfraction = 0,
     maxnodesize = 1024, epsilon = 1 / 10000, target_game = ex_game\<rparr>"

definition axial_plane :: "nat \<Rightarrow> vec_t \<Rightarrow> qbsp_plane_t" where
  "axial_plane i d = \<lparr>normal = axis_vec i 1, dist = d, ptype = axis_type i\<rparr>"

text \<open>The registry: the planes of the cube \<open>[0, 64]\<^sup>3\<close> (0 to 11), the planes
  \<open>x = 32\<close> (12), \<open>x = 16\<close> (14), \<open>x = 100\<close> (18), \<open>x = 32 + 1/2000\<close> (20),
  \<open>x = 32 - 1/2000\<close> (22), \<open>y = 40\<close> (24), \<open>z = 40\<close> (26), \<open>x = 1/20\<close> (28), the
  sloping plane \<open>3/5 x + 4/5 y = 224/5\<close> through the centre of the cube (16), and the
  sloping plane \<open>3/5 x + 4/5 y = 176/5\<close> through the centre of the bar
  \<open>[0, 64] \<times> [0, 40] \<times> [0, 40]\<close> (30); each with its flip at the next index.\<close>

definition ex_planes :: "qbsp_plane_t list" where
  "ex_planes = concat (map (\<lambda>p. [p, flip_plane p])
     [axial_plane 0 64, axial_plane 0 0, axial_plane 1 64, axial_plane 1 0,
      axial_plane 2 64, axial_plane 2 0, axial_plane 0 32, axial_plane 0 16,
      \<lparr>normal = qvec3d (3 / 5) (4 / 5) 0, dist = 224 / 5, ptype = PLANE_ANYY\<rparr>,
      axial_plane 0 100, axial_plane 0 (32 + 1 / 2000), axial_plane 0 (32 - 1 / 2000),
      axial_plane 1 40, axial_plane 2 40, axial_plane 0 (1 / 20),
      \<lparr>normal = qvec3d (3 / 5) (4 / 5) 0, dist = 176 / 5, ptype = PLANE_ANYY\<rparr>])"

definition ex_map :: mapdata_t where
  "ex_map = \<lparr>planes = ex_planes,
     mtexinfos = [\<lparr>is_hint = False, is_hintskip = False\<rparr>, \<lparr>is_hint = False, is_hintskip = True\<rparr>],
     skip_texinfo = 1, total_brushes = 10\<rparr>"

definition ex_globals :: globals_t where
  "ex_globals = \<lparr>kernel = ref_kernel, qbsp_options = ex_options, mapdata = ex_map,
     VECT_MAX = 2 ^ 1024\<rparr>"

definition ex_side :: "planenum_t \<Rightarrow> winding_t \<Rightarrow> side_t" where
  "ex_side pn wn = \<lparr>planenum = pn, texinfo = 0, side_w = wn, onnode = False, bevel = False,
     tested = False, visible = True\<rparr>"

text \<open>The box \<open>[x0, x1] \<times> [y0, y1] \<times> [z0, z1]\<close> with the given plane numbers of its six
  sides (+x, +y, +z, -x, -y, -z) and the given contents.\<close>

definition ex_box ::
  "vec_t \<Rightarrow> vec_t \<Rightarrow> vec_t \<Rightarrow> vec_t \<Rightarrow> vec_t \<Rightarrow> vec_t \<Rightarrow> planenum_t list \<Rightarrow> contentflags_t \<Rightarrow> bspbrush_t" where
  "ex_box x0 x1 y0 y1 z0 z1 pns c =
     \<lparr>sides =
        [ex_side (pns ! 0) [qvec3d x1 y0 z0, qvec3d x1 y1 z0, qvec3d x1 y1 z1, qvec3d x1 y0 z1],
         ex_side (pns ! 1) [qvec3d x0 y1 z0, qvec3d x0 y1 z1, qvec3d x1 y1 z1, qvec3d x1 y1 z0],
         ex_side (pns ! 2) [qvec3d x0 y0 z1, qvec3d x1 y0 z1, qvec3d x1 y1 z1, qvec3d x0 y1 z1],
         ex_side (pns ! 3) [qvec3d x0 y0 z0, qvec3d x0 y0 z1, qvec3d x0 y1 z1, qvec3d x0 y1 z0],
         ex_side (pns ! 4) [qvec3d x0 y0 z0, qvec3d x1 y0 z0, qvec3d x1 y0 z1, qvec3d x0 y0 z1],
         ex_side (pns ! 5) [qvec3d x0 y0 z0, qvec3d x0 y1 z0, qvec3d x1 y1 z0, qvec3d x1 y0 z0]],
      bounds = \<lparr>mins = qvec3d x0 y0 z0, maxs = qvec3d x1 y1 z1\<rparr>,
      contents = c, mapbrush = Some \<lparr>mapbrush_contents = c\<rparr>, side = 0, testside = 0,
      original_ptr = None\<rparr>"

definition ex_cube :: bspbrush_t where
  "ex_cube = ex_box 0 64 0 64 0 64 [0, 4, 8, 3, 7, 11] 1"

text \<open>A slab of thickness 1/20 in front of the plane \<open>x = 0\<close>, and a slab of thickness
  1/1000 around the plane \<open>x = 32\<close>.\<close>

definition ex_thin :: bspbrush_t where
  "ex_thin = ex_box 0 (1 / 20) 0 64 0 64 [28, 4, 8, 3, 7, 11] 1"

definition ex_flat :: bspbrush_t where
  "ex_flat = ex_box (32 - 1 / 2000) (32 + 1 / 2000) 0 64 0 64 [20, 4, 8, 23, 7, 11] 1"

text \<open>The unit cube, and a sloping plane through its corner \<open>(0, 1, 0)\<close> whose normal has
  a negative component.\<close>

definition ex_unit_box :: aabb3d where
  "ex_unit_box = \<lparr>mins = qvec3d 0 0 0, maxs = qvec3d 1 1 1\<rparr>"

definition ex_slope_neg :: qbsp_plane_t where
  "ex_slope_neg = \<lparr>normal = qvec3d (3 / 5) (- (4 / 5)) 0, dist = - (4 / 5), ptype = PLANE_ANYY\<rparr>"

text \<open>All points of all windings of a brush.\<close>

definition brush_points :: "bspbrush_t \<Rightarrow> qvec3d list" where
  "brush_points brush = concat (map side_w (sides brush))"

text \<open>The bar \<open>[0, 64] \<times> [0, 40] \<times> [0, 40]\<close>, and the example globals with another world
  extent.\<close>

definition ex_bar :: bspbrush_t where
  "ex_bar = ex_box 0 64 0 40 0 40 [0, 24, 26, 3, 7, 11] 1"

definition ex_globals_extent :: "vec_t \<Rightarrow> globals_t" where
  "ex_globals_extent e = ex_globals\<lparr>qbsp_options := ex_options\<lparr>worldextent := e\<rparr>\<rparr>"

text \<open>The split of the bar by the plane \<open>x = 32\<close> (plane 12): the dividing winding, and
  the two halves before and after the validation.\<close>

definition ex_mid :: winding_t where
  "ex_mid = [qvec3d 32 40 40, qvec3d 32 40 0, qvec3d 32 0 0, qvec3d 32 0 40]"

definition ex_half_front :: bspbrush_t where
  "ex_half_front = (new_half ex_globals ex_bar)\<lparr>sides :=
     [ex_side 0 [qvec3d 64 0 0, qvec3d 64 40 0, qvec3d 64 40 40, qvec3d 64 0 40],
      ex_side 24 [qvec3d 32 40 40, qvec3d 64 40 40, qvec3d 64 40 0, qvec3d 32 40 0],
      ex_side 26 [qvec3d 32 0 40, qvec3d 64 0 40, qvec3d 64 40 40, qvec3d 32 40 40],
      ex_side 7 [qvec3d 32 0 0, qvec3d 64 0 0, qvec3d 64 0 40, qvec3d 32 0 40],
      ex_side 11 [qvec3d 32 40 0, qvec3d 64 40 0, qvec3d 64 0 0, qvec3d 32 0 0]]\<rparr>"

definition ex_half_back :: bspbrush_t where
  "ex_half_back = (new_half ex_globals ex_bar)\<lparr>sides :=
     [ex_side 24 [qvec3d 0 40 0, qvec3d 0 40 40, qvec3d 32 40 40, qvec3d 32 40 0],
      ex_side 26 [qvec3d 0 0 40, qvec3d 32 0 40, qvec3d 32 40 40, qvec3d 0 40 40],
      ex_side 3 [qvec3d 0 0 0, qvec3d 0 0 40, qvec3d 0 40 40, qvec3d 0 40 0],
      ex_side 7 [qvec3d 0 0 0, qvec3d 32 0 0, qvec3d 32 0 40, qvec3d 0 0 40],
      ex_side 11 [qvec3d 0 0 0, qvec3d 0 40 0, qvec3d 32 40 0, qvec3d 32 0 0]]\<rparr>"

definition ex_front :: bspbrush_t where
  "ex_front = ex_half_front\<lparr>bounds := \<lparr>mins = qvec3d 32 0 0, maxs = qvec3d 64 40 40\<rparr>\<rparr>"

definition ex_back :: bspbrush_t where
  "ex_back = ex_half_back\<lparr>bounds := \<lparr>mins = qvec3d 0 0 0, maxs = qvec3d 32 40 40\<rparr>\<rparr>"

text \<open>A node whose volume and bounds are the bar, and a prism in it with two sides that
  can still split: one on the sloping plane 30 through the centre of the bar, one on the
  flip 15 of the plane \<open>x = 16\<close>; its other three sides are on planes of the node.\<close>

definition ex_prism :: bspbrush_t where
  "ex_prism =
     \<lparr>sides =
        [ex_side 30 [qvec3d (176 / 3) 0 0, qvec3d 16 32 0, qvec3d 16 32 40, qvec3d (176 / 3) 0 40],
         ex_side 15 [qvec3d 16 0 0, qvec3d 16 0 40, qvec3d 16 32 40, qvec3d 16 32 0],
         (ex_side 7 [qvec3d 16 0 0, qvec3d (176 / 3) 0 0, qvec3d (176 / 3) 0 40, qvec3d 16 0 40])\<lparr>onnode := True\<rparr>,
         (ex_side 26 [qvec3d 16 0 40, qvec3d (176 / 3) 0 40, qvec3d 16 32 40])\<lparr>onnode := True\<rparr>,
         (ex_side 11 [qvec3d 16 0 0, qvec3d 16 32 0, qvec3d (176 / 3) 0 0])\<lparr>onnode := True\<rparr>],
      bounds = \<lparr>mins = qvec3d 16 0 0, maxs = qvec3d (176 / 3) 32 40\<rparr>,
      contents = 1, mapbrush = Some \<lparr>mapbrush_contents = 1\<rparr>, side = 0, testside = 0,
      original_ptr = None\<rparr>"

definition ex_node :: node_t where
  "ex_node = (new_node ex_globals)\<lparr>volume := Some ex_bar, node_bounds := bounds ex_bar\<rparr>"







definition ex_detail :: bspbrush_t where
  "ex_detail = ex_box 0 64 0 40 0 40 [0, 24, 26, 3, 7, 11] 5"


text \<open>
  The fragments of the detail bar. A half gets the contents, the map brush and the original
  of the bar (\<open>ex_raw\<close>, before its bounds are computed); all fragments have the
  \<open>y\<close> and \<open>z\<close> extent of the bar.
\<close>

definition ex_raw :: "side_t list \<Rightarrow> bspbrush_t" where
  "ex_raw ss = (new_half ex_globals ex_detail)\<lparr>sides := ss\<rparr>"

definition ex_piece :: "vec_t \<Rightarrow> vec_t \<Rightarrow> side_t list \<Rightarrow> bspbrush_t" where
  "ex_piece x0 x1 ss = (ex_raw ss)\<lparr>bounds := \<lparr>mins = qvec3d x0 0 0, maxs = qvec3d x1 40 40\<rparr>\<rparr>"


definition ex_mid15 :: winding_t where
  "ex_mid15 = [qvec3d 16 40 0, qvec3d 16 40 40, qvec3d 16 0 40, qvec3d 16 0 0]"

text \<open>The sides of the part \<open>[0, 16]\<close> of the half \<open>[0, 32]\<close> of the bar, and of its part
  \<open>[16, 32]\<close>, whose last side \<open>p\<close> is the dividing face of the half.\<close>

definition ex_sides_a :: "side_t list" where
  "ex_sides_a =
     [ex_side 24 [qvec3d 0 40 0, qvec3d 0 40 40, qvec3d 16 40 40, qvec3d 16 40 0],
      ex_side 26 [qvec3d 0 0 40, qvec3d 16 0 40, qvec3d 16 40 40, qvec3d 0 40 40],
      ex_side 3 [qvec3d 0 0 0, qvec3d 0 0 40, qvec3d 0 40 40, qvec3d 0 40 0],
      ex_side 7 [qvec3d 0 0 0, qvec3d 16 0 0, qvec3d 16 0 40, qvec3d 0 0 40],
      ex_side 11 [qvec3d 0 0 0, qvec3d 0 40 0, qvec3d 16 40 0, qvec3d 16 0 0]]"






definition ex_a :: bspbrush_t where
  "ex_a = ex_piece 0 16 (ex_sides_a @ [mid_side ex_globals 15 ex_mid15 0])"



section \<open>Lemmas about the model\<close>

lemmas ex_defs = ex_globals_def ex_map_def ex_planes_def ex_options_def ex_game_def ex_cube_def
  ex_box_def ex_side_def axial_plane_def flip_plane_def axis_vec_def axis_type_def get_plane_def
  side_get_plane_def ex_thin_def ex_flat_def ex_bar_def brush_points_def

lemmas ref_defs = ref_kernel_def ref_clip_def ref_clip_back_def ref_base_winding_def BOGUS_RANGE_def
  ref_area_def ref_update_bounds_def points_box_def

lemmas pside_defs = PSIDE_FRONT_def PSIDE_BACK_def PSIDE_BOTH_def PSIDE_FACING_def

subsection \<open>The first loop of SplitBrush\<close>

lemma split_point_front:
  "0 < c \<Longrightarrow> (fst (fold (split_point split) ps acc) < c)
     = (fst acc < c \<and> (\<forall>p\<in>set ps. plane_dist split p < c))"
  by (induction ps arbitrary: acc) (auto simp: split_point_def Let_def)

lemma split_point_back:
  "c < 0 \<Longrightarrow> (snd (fold (split_point split) ps acc) > c)
     = (snd acc > c \<and> (\<forall>p\<in>set ps. plane_dist split p > c))"
  by (induction ps arbitrary: acc) (auto simp: split_point_def Let_def)

lemma split_faces_front:
  "0 < c \<Longrightarrow> (fst (fold (\<lambda>face acc. fold (split_point split) (side_w face) acc) fs acc) < c)
     = (fst acc < c \<and> (\<forall>p\<in>set (concat (map side_w fs)). plane_dist split p < c))"
  by (induction fs arbitrary: acc) (auto simp: split_point_front)

lemma split_faces_back:
  "c < 0 \<Longrightarrow> (snd (fold (\<lambda>face acc. fold (split_point split) (side_w face) acc) fs acc) > c)
     = (snd acc > c \<and> (\<forall>p\<in>set (concat (map side_w fs)). plane_dist split p > c))"
  by (induction fs arbitrary: acc) (auto simp: split_point_back)

lemma split_dists_front:
  "(fst (split_dists split brush) < 1 / 10)
     = (\<forall>p\<in>set (brush_points brush). plane_dist split p < 1 / 10)"
  unfolding split_dists_def brush_points_def by (subst split_faces_front) auto

lemma split_dists_back:
  "(snd (split_dists split brush) > - (1 / 10))
     = (\<forall>p\<in>set (brush_points brush). plane_dist split p > - (1 / 10))"
  unfolding split_dists_def brush_points_def by (subst split_faces_back) auto

lemma volume_check_sides:
  "volume_check G h stats = (Some h', stats') \<Longrightarrow> h' = h"
  by (auto simp: volume_check_def split: if_splits)

subsection \<open>The classification bits\<close>

lemma facing_side_bits:
  "facing_side ss pn = Some s \<Longrightarrow> s AND PSIDE_FACING \<noteq> 0"
  by (induction ss) (auto simp: pside_defs split: if_splits)

lemma BoxOnPlaneSide_range:
  "BoxOnPlaneSide bx plane \<in> {0, 1, 2, 3}"
  by (simp add: BoxOnPlaneSide_def Let_def PSIDE_FRONT_def PSIDE_BACK_def)

lemma BoxOnPlaneSide_not_facing:
  "BoxOnPlaneSide bx plane AND PSIDE_FACING = 0"
  using BoxOnPlaneSide_range [of bx plane] by (auto simp: PSIDE_FACING_def)

lemma PSIDE_BOTH_not_facing: "PSIDE_BOTH AND PSIDE_FACING = 0"
  by (simp add: pside_defs)

lemma facing_zero_splits:
  "fst (TestBrushToPlanenum G brush pn (Some ns) hs eb) AND PSIDE_FACING \<noteq> 0 \<Longrightarrow>
   fst (snd (TestBrushToPlanenum G brush pn (Some ns) hs eb)) = Some 0"
  by (auto simp: TestBrushToPlanenum_def Let_def BoxOnPlaneSide_not_facing PSIDE_BOTH_not_facing
           split: option.splits prod.splits if_splits)

lemma test_brushes_no_error:
  "\<not> isl (test_brushes G ppn spn ts c)"
proof (induction ts arbitrary: c)
  case Nil
  then show ?case by simp
next
  case (Cons t ts)
  obtain s n h e where r:
    "TestBrushToPlanenum G t ppn (Some 0) (Some (ct_hintsplit c)) (Some (ct_epsilonbrush c)) = (s, n, h, e)"
    by (cases "TestBrushToPlanenum G t ppn (Some 0) (Some (ct_hintsplit c)) (Some (ct_epsilonbrush c))") auto
  have n0: "s AND PSIDE_FACING \<noteq> 0 \<Longrightarrow> the n = 0"
    using facing_zero_splits [of G t ppn 0 "Some (ct_hintsplit c)" "Some (ct_epsilonbrush c)"] r by simp
  have ih: "\<And>c' x. test_brushes G ppn spn ts c' \<noteq> Inl x"
    using Cons.IH by (metis sum.disc(1))
  show ?case using r n0
    by (auto simp: Let_def ih split: sum.splits prod.splits)
qed

subsection \<open>SplitBrushList\<close>

lemma split_list_step_dropped:
  "side b AND PSIDE_FRONT = 0 \<Longrightarrow> side b AND PSIDE_BACK = 0 \<Longrightarrow> split_list_step G pn b acc = acc"
  by (auto simp: split_list_step_def Let_def pside_defs split: prod.splits)

subsection \<open>The errors of SelectSplitPlane\<close>

lemma parents_walk_error:
  "parents_walk ns k p pn = Some (Inl e) \<Longrightarrow> e = TriedParent"
  by (induction ns k p pn rule: parents_walk.induct) (auto split: if_splits)

lemma test_brushes_not_Inl:
  "test_brushes G ppn spn ts c \<noteq> Inl e"
  using test_brushes_no_error [of G ppn spn ts c] by (metis sum.disc(1))

lemma select_side_step_error:
  "select_side_step G t n pass bsi st = Some (Inl e) \<Longrightarrow> e = TriedParent \<or> e = NullVolume"
  by (auto simp: select_side_step_def Let_def CheckPlaneAgainstParents_def test_brushes_not_Inl
           split: if_splits option.splits sum.splits prod.splits dest: parents_walk_error)

lemma select_sides_error:
  "select_sides G t n pass bsis st = Some (Inl e) \<Longrightarrow> e = TriedParent \<or> e = NullVolume"
  by (induction bsis arbitrary: st)
     (auto split: option.splits sum.splits dest: select_side_step_error)

lemma select_passes_error:
  "select_passes G t n ps st = Some (Inl e) \<Longrightarrow> e = TriedParent \<or> e = NullVolume"
  by (induction ps arbitrary: st)
     (auto split: option.splits sum.splits if_splits dest: select_sides_error)

lemma select_heuristic_error:
  "select_heuristic G t n brushes stats = Some (Inl e) \<Longrightarrow> e = TriedParent \<or> e = NullVolume"
  by (auto simp: select_heuristic_def Let_def simp del: select_passes.simps
           split: option.splits sum.splits prod.splits dest: select_passes_error)

lemma ChooseMidPlaneFromList_error:
  "ChooseMidPlaneFromList G brushes node stats = Inl e \<Longrightarrow> e = NullVolume"
  by (auto simp: ChooseMidPlaneFromList_def Let_def split: option.splits if_splits)

lemma tries_midsplit_error:
  "tries_midsplit G k nb fq = Inl e \<Longrightarrow> e = BadOptionalAccess"
  by (auto simp: tries_midsplit_def split: option.splits if_splits)

lemma SelectSplitPlane_error:
  "SelectSplitPlane G t n brushes fq stats = Some (Inl e) \<Longrightarrow>
     e = TriedParent \<or> e = NullVolume \<or> e = BadOptionalAccess"
  by (auto simp: SelectSplitPlane_def split: if_splits sum.splits bool.splits option.splits prod.splits
           dest: select_heuristic_error ChooseMidPlaneFromList_error tries_midsplit_error)

subsection \<open>The split of the example bar, stage by stage\<close>

lemmas ext_defs = ex_globals_extent_def ex_defs

lemma ex_plane12: "get_plane (ex_globals_extent e) 12 = axial_plane 0 32"
  by (simp add: ext_defs)

lemma ex_bar_dists: "split_dists (axial_plane 0 32) ex_bar = (32, - 32)"
  by (simp add: ex_defs split_dists_def split_point_def plane_dist_def Let_def)

lemma ex_bar_midwinding:
  "split_midwinding (ex_globals_extent e) (axial_plane 0 32) ex_bar = Some ex_mid"
  by (simp add: ext_defs ref_defs ex_mid_def split_midwinding_def plane_dist_def Let_def)

lemma ex_mid_not_tiny:
  "\<not> WindingIsTiny (kernel (ex_globals_extent e)) ex_mid WindingIsTiny_default_size"
  by (simp add: ext_defs ref_defs ex_mid_def WindingIsTiny_def WindingIsTiny_default_size_def Let_def)

lemma ex_bar_faces:
  "split_faces (ex_globals_extent e) (axial_plane 0 32) ex_bar = (ex_half_front, ex_half_back)"
  by (simp add: ext_defs ref_defs ex_half_front_def ex_half_back_def split_faces_def split_face_def
        new_half_def plane_dist_def Let_def)

lemma ex_front_update:
  "update_bounds (kernel (ex_globals_extent e)) (qbsp_options (ex_globals_extent e)) ex_half_front
     = (True, ex_front)"
  by (simp add: ext_defs ref_defs ex_half_front_def ex_front_def new_half_def Let_def)

lemma ex_back_update:
  "update_bounds (kernel (ex_globals_extent e)) (qbsp_options (ex_globals_extent e)) ex_half_back
     = (True, ex_back)"
  by (simp add: ext_defs ref_defs ex_half_back_def ex_back_def new_half_def Let_def)

lemma ex_front_validate_50:
  "validate_half (ex_globals_extent 50) ex_half_front st = (None, st\<lparr>c_bogus := c_bogus st + 1\<rparr>)"
  by (simp add: validate_half_def ex_front_update Let_def bounds_outside_def)
     (simp add: ext_defs ex_front_def ex_half_front_def)

lemma ex_back_validate_50:
  "validate_half (ex_globals_extent 50) ex_half_back st = (Some ex_back, st)"
  by (simp add: validate_half_def ex_back_update Let_def bounds_outside_def)
     (simp add: ext_defs ex_back_def ex_half_back_def)

lemma ex_globals_extent_default: "ex_globals_extent 65536 = ex_globals"
  by (simp add: ex_globals_extent_def ex_globals_def ex_options_def)

lemma ex_front_validate:
  "validate_half (ex_globals_extent 65536) ex_half_front st = (Some ex_front, st)"
  by (simp add: validate_half_def ex_front_update Let_def bounds_outside_def)
     (simp add: ext_defs ex_front_def ex_half_front_def)

lemma ex_back_validate:
  "validate_half (ex_globals_extent 65536) ex_half_back st = (Some ex_back, st)"
  by (simp add: validate_half_def ex_back_update Let_def bounds_outside_def)
     (simp add: ext_defs ex_back_def ex_half_back_def)

lemma ex_front_volume:
  "BrushVolume ex_globals (ex_front\<lparr>sides := sides ex_front @ [mid_side ex_globals 12 ex_mid 0]\<rparr>) = 51200"
  by (simp add: BrushVolume_def ex_front_def ex_half_front_def ex_mid_def mid_side_def new_half_def
        ex_defs ref_defs Let_def)

lemma ex_back_volume:
  "BrushVolume ex_globals (ex_back\<lparr>sides := sides ex_back @ [mid_side ex_globals 12 ex_mid 1]\<rparr>) = 51200"
  by (simp add: BrushVolume_def ex_back_def ex_half_back_def ex_mid_def mid_side_def new_half_def
        ex_defs ref_defs Let_def)

lemma ex_bar_split:
  "SplitBrush ex_globals ex_bar 12 new_stats =
     ((Some (ex_front\<lparr>sides := sides ex_front @ [mid_side ex_globals 12 ex_mid 0]\<rparr>),
       Some (ex_back\<lparr>sides := sides ex_back @ [mid_side ex_globals 12 ex_mid 1]\<rparr>)), new_stats)"
proof -
  have "SplitBrush (ex_globals_extent 65536) ex_bar 12 new_stats =
     split_finish (ex_globals_extent 65536) ex_bar 12 ex_mid (Some ex_front) (Some ex_back) new_stats"
    by (simp add: SplitBrush_def Let_def ex_plane12 ex_bar_dists ex_bar_midwinding ex_mid_not_tiny
          ex_bar_faces ex_front_validate ex_back_validate)
  moreover have "microvolume (qbsp_options ex_globals) = 1 / 100"
    by (simp add: ex_globals_def ex_options_def)
  ultimately show ?thesis
    by (simp add: ex_globals_extent_default split_finish_def Let_def volume_check_def
          ex_front_volume ex_back_volume del: One_nat_def)
qed

subsection \<open>The loop of ChooseMidPlaneFromList\<close>

lemma validate_half_fst:
  "fst (validate_half G h s) = fst (validate_half G h s')"
  by (simp add: validate_half_def Let_def split: prod.splits)

lemma volume_check_fst:
  "fst (volume_check G h s) = fst (volume_check G h s')"
  by (simp add: volume_check_def)

lemma split_finish_fst:
  "fst (split_finish G brush pn mw r0 r1 s) = fst (split_finish G brush pn mw r0 r1 s')"
proof (cases r0; cases r1)
  fix f b assume "r0 = Some f" "r1 = Some b"
  then show ?thesis
    using volume_check_fst [of G "f\<lparr>sides := sides f @ [mid_side G pn mw 0]\<rparr>" s s']
    by (auto simp: split_finish_def Let_def volume_check_def split: prod.splits)
qed (auto simp: split_finish_def)

lemma SplitBrush_fst:
  "fst (SplitBrush G brush pn s) = fst (SplitBrush G brush pn s')"
proof -
  obtain h0 h1 where h: "split_faces G (get_plane G pn) brush = (h0, h1)" by force
  obtain r0 s0 where v0: "validate_half G h0 s = (r0, s0)" by force
  obtain r0' s0' where v0': "validate_half G h0 s' = (r0', s0')" by force
  obtain r1 s1 where v1: "validate_half G h1 s0 = (r1, s1)" by force
  obtain r1' s1' where v1': "validate_half G h1 s0' = (r1', s1')" by force
  have "r0 = r0'" using validate_half_fst [of G h0 s s'] v0 v0' by simp
  moreover have "r1 = r1'" using validate_half_fst [of G h1 s0 s0'] v1 v1' by simp
  ultimately show ?thesis
    using h v0 v0' v1 v1' split_finish_fst [of G brush pn _ r0 r1 s1 s1']
    by (simp add: SplitBrush_def Let_def split: option.splits)
qed

lemma CheckPlaneAgainstVolume_fst:
  "fst (CheckPlaneAgainstVolume G pn vol s) = plane_splits_volume G vol pn"
  using SplitBrush_fst [of G vol pn s new_stats]
  by (cases "SplitBrush G vol pn s"; cases "SplitBrush G vol pn new_stats")
     (auto simp: CheckPlaneAgainstVolume_def plane_splits_volume_def)

lemma mid_side_step_bests:
  "mid_bests (mid_side_step G vol nb s st) =
     (case side_cand G vol nb s of None \<Rightarrow> mid_bests st | Some c \<Rightarrow> best_step c (mid_bests st))"
  using CheckPlaneAgainstVolume_fst [of G "planenum s AND NOT 1" vol "mid_stats st"]
  by (auto simp: mid_side_step_def side_cand_def mid_candidate_def mid_bests_def best_step_def Let_def
           split: prod.splits option.splits)

lemma mid_sides_bests:
  "mid_bests (fold (mid_side_step G vol nb) ss st) =
     fold best_step (List.map_filter (side_cand G vol nb) ss) (mid_bests st)"
  by (induction ss arbitrary: st) (auto simp: mid_side_step_bests map_filter_simps split: option.splits)

lemma mid_loop_bests:
  "mid_bests (mid_loop G vol nb brushes st) =
     fold best_step (mid_candidates G vol nb brushes) (mid_bests st)"
  by (induction brushes arbitrary: st) (auto simp: mid_loop_def mid_candidates_def mid_sides_bests)

lemma best_step_snd:
  "snd (best_step c acc) =
     (if cand_metric c < fst (snd acc) then (cand_metric c, Some (cand_plane c)) else snd acc)"
  by (simp add: best_step_def)

lemma best_step_fst:
  "fst (best_step c acc) =
     (if cand_axial c \<and> cand_metric c < fst (fst acc) then (cand_metric c, Some (cand_plane c))
      else fst acc)"
  by (simp add: best_step_def)

lemma best_any_invariant:
  "snd (fold best_step cs ((V, None), (V, None))) = (ym, yp) \<Longrightarrow>
   (case yp of
      None \<Rightarrow> ym = V \<and> (\<forall>c\<in>set cs. \<not> cand_metric c < V)
    | Some q \<Rightarrow> ym < V \<and> (\<exists>c\<in>set cs. cand_plane c = q \<and> cand_metric c = ym)
               \<and> (\<forall>c\<in>set cs. ym \<le> cand_metric c))"
proof (induction cs arbitrary: ym yp rule: rev_induct)
  case Nil
  then show ?case by simp
next
  case (snoc c cs)
  obtain ym0 yp0 where p: "snd (fold best_step cs ((V, None), (V, None))) = (ym0, yp0)" by force
  note ih = snoc.IH [OF p]
  show ?case
  proof (cases "cand_metric c < ym0")
    case True
    then have "ym = cand_metric c" "yp = Some (cand_plane c)"
      using snoc.prems p by (auto simp: best_step_snd best_step_fst)
    then show ?thesis using ih True by (cases yp0) (fastforce simp: not_less)+
  next
    case False
    then have "ym = ym0" "yp = yp0"
      using snoc.prems p by (auto simp: best_step_snd best_step_fst)
    then show ?thesis using ih False by (cases yp0) (auto simp: not_less)
  qed
qed

lemma best_axial_invariant:
  "fst (fold best_step cs ((V, None), (V, None))) = (am, ap) \<Longrightarrow>
   (case ap of
      None \<Rightarrow> am = V \<and> (\<forall>c\<in>set cs. cand_axial c \<longrightarrow> \<not> cand_metric c < V)
    | Some q \<Rightarrow> am < V \<and> (\<exists>c\<in>set cs. cand_axial c \<and> cand_plane c = q \<and> cand_metric c = am)
               \<and> (\<forall>c\<in>set cs. cand_axial c \<longrightarrow> am \<le> cand_metric c))"
proof (induction cs arbitrary: am ap rule: rev_induct)
  case Nil
  then show ?case by simp
next
  case (snoc c cs)
  obtain am0 ap0 where p: "fst (fold best_step cs ((V, None), (V, None))) = (am0, ap0)" by force
  note ih = snoc.IH [OF p]
  show ?case
  proof (cases "cand_axial c \<and> cand_metric c < am0")
    case True
    then have "am = cand_metric c" "ap = Some (cand_plane c)"
      using snoc.prems p by (auto simp: best_step_snd best_step_fst)
    then show ?thesis using ih True by (cases ap0) (fastforce simp: not_less)+
  next
    case False
    then have "am = am0" "ap = ap0"
      using snoc.prems p by (auto simp: best_step_snd best_step_fst)
    then show ?thesis using ih False by (cases ap0) (auto simp: not_less)
  qed
qed

subsection \<open>The example of the midsplit method\<close>

lemma plane_splits_volumeI:
  assumes d1: "\<not> fst (split_dists (get_plane G pn) vol) < 1 / 10"
    and d2: "\<not> snd (split_dists (get_plane G pn) vol) > - (1 / 10)"
    and mw: "split_midwinding G (get_plane G pn) vol \<noteq> None"
    and tiny: "\<not> WindingIsTiny (kernel G) (the (split_midwinding G (get_plane G pn) vol))
                 WindingIsTiny_default_size"
    and v0: "fst (validate_half G (fst (split_faces G (get_plane G pn) vol)) new_stats) \<noteq> None"
    and v1: "fst (validate_half G (snd (split_faces G (get_plane G pn) vol)) new_stats) \<noteq> None"
    and vol0: "\<not> BrushVolume G
        ((the (fst (validate_half G (fst (split_faces G (get_plane G pn) vol)) new_stats)))
           \<lparr>sides := sides (the (fst (validate_half G (fst (split_faces G (get_plane G pn) vol)) new_stats)))
               @ [mid_side G pn (the (split_midwinding G (get_plane G pn) vol)) 0]\<rparr>)
        < microvolume (qbsp_options G)"
    and vol1: "\<not> BrushVolume G
        ((the (fst (validate_half G (snd (split_faces G (get_plane G pn) vol)) new_stats)))
           \<lparr>sides := sides (the (fst (validate_half G (snd (split_faces G (get_plane G pn) vol)) new_stats)))
               @ [mid_side G pn (the (split_midwinding G (get_plane G pn) vol)) 1]\<rparr>)
        < microvolume (qbsp_options G)"
  shows "plane_splits_volume G vol pn"
proof -
  obtain h0 h1 where h: "split_faces G (get_plane G pn) vol = (h0, h1)" by force
  obtain m where m: "split_midwinding G (get_plane G pn) vol = Some m" using mw by auto
  obtain r0 s0 where r0: "validate_half G h0 new_stats = (r0, s0)" by force
  obtain r1 s1 where r1: "validate_half G h1 s0 = (r1, s1)" by force
  have e1: "fst (validate_half G h1 new_stats) = r1"
    using validate_half_fst [of G h1 new_stats s0] r1 by simp
  obtain f where f: "r0 = Some f" using v0 h r0 by auto
  obtain b where b: "r1 = Some b" using v1 h e1 by auto
  have "fst (SplitBrush G vol pn new_stats) =
      fst (split_finish G vol pn m (Some f) (Some b) s1)"
    using d1 d2 m tiny h r0 r1 f b by (simp add: SplitBrush_def Let_def)
  moreover have "\<not> BrushVolume G (f\<lparr>sides := sides f @ [mid_side G pn m 0]\<rparr>) < microvolume (qbsp_options G)"
    using vol0 h r0 f m by simp
  moreover have "\<not> BrushVolume G (b\<lparr>sides := sides b @ [mid_side G pn m 1]\<rparr>) < microvolume (qbsp_options G)"
    using vol1 h e1 b m by simp
  ultimately show ?thesis
    by (cases "SplitBrush G vol pn new_stats")
       (auto simp: plane_splits_volume_def CheckPlaneAgainstVolume_def split_finish_def Let_def
          volume_check_def simp del: One_nat_def)
qed

lemmas split_defs = split_dists_def split_point_def plane_dist_def split_midwinding_def
  WindingIsTiny_def WindingIsTiny_default_size_def split_faces_def split_face_def new_half_def
  validate_half_def bounds_outside_def mid_side_def BrushVolume_def

lemma ex_bar_splits_14: "plane_splits_volume ex_globals ex_bar 14"
  by (rule plane_splits_volumeI) (simp_all add: ex_defs ref_defs split_defs Let_def)

lemma ex_bar_splits_30: "plane_splits_volume ex_globals ex_bar 30"
  by (rule plane_splits_volumeI) (simp_all add: ex_defs ref_defs split_defs Let_def)

lemmas metric_defs = SplitPlaneMetric_def DivideBounds_def divide_axis_def divide_corner_def box_at_def
  is_axial_def NORMAL_EPSILON_def ref_box_volume_def

lemma ex_metric_14:
  "SplitPlaneMetric ex_globals (get_plane ex_globals 14) (bounds ex_bar) = Some 51200"
  by (simp add: metric_defs ex_defs ref_defs Let_def)

lemma ex_metric_30:
  "SplitPlaneMetric ex_globals (get_plane ex_globals 30) (bounds ex_bar) = Some 0"
  by (simp add: metric_defs ex_defs ref_defs Let_def)

lemma ex_candidates:
  "mid_candidates ex_globals ex_bar (bounds ex_bar) [ex_prism] =
     [\<lparr>cand_plane = 30, cand_axial = False, cand_metric = 0\<rparr>,
      \<lparr>cand_plane = 14, cand_axial = True, cand_metric = 51200\<rparr>]"
proof -
  have p30: "get_plane ex_globals 30 = \<lparr>normal = qvec3d (3 / 5) (4 / 5) 0, dist = 176 / 5, ptype = PLANE_ANYY\<rparr>"
    by (simp add: ex_defs)
  have p14: "get_plane ex_globals 14 = axial_plane 0 16"
    by (simp add: ex_defs)
  have c1: "side_cand ex_globals ex_bar (bounds ex_bar) (sides ex_prism ! 0)
      = Some \<lparr>cand_plane = 30, cand_axial = False, cand_metric = 0\<rparr>"
    using ex_bar_splits_30 ex_metric_30
    by (simp add: side_cand_def mid_candidate_def ex_prism_def ex_side_def side_get_positive_plane_def
          p30 is_axial_def)
  have c2: "side_cand ex_globals ex_bar (bounds ex_bar) (sides ex_prism ! 1)
      = Some \<lparr>cand_plane = 14, cand_axial = True, cand_metric = 51200\<rparr>"
    using ex_bar_splits_14 ex_metric_14
    by (simp add: side_cand_def mid_candidate_def ex_prism_def ex_side_def side_get_positive_plane_def
          p14 is_axial_def axial_plane_def axis_type_def)
  have c3: "side_cand ex_globals ex_bar (bounds ex_bar) (sides ex_prism ! 2) = None"
    "side_cand ex_globals ex_bar (bounds ex_bar) (sides ex_prism ! 3) = None"
    "side_cand ex_globals ex_bar (bounds ex_bar) (sides ex_prism ! 4) = None"
    by (simp_all add: side_cand_def mid_candidate_def ex_prism_def ex_side_def)
  have s: "sides ex_prism = [sides ex_prism ! 0, sides ex_prism ! 1, sides ex_prism ! 2,
      sides ex_prism ! 3, sides ex_prism ! 4]"
    by (simp add: ex_prism_def)
  have "mid_candidates ex_globals ex_bar (bounds ex_bar) [ex_prism] =
      List.map_filter (side_cand ex_globals ex_bar (bounds ex_bar)) (sides ex_prism)"
    by (simp add: mid_candidates_def)
  also have "\<dots> = List.map_filter (side_cand ex_globals ex_bar (bounds ex_bar))
      [sides ex_prism ! 0, sides ex_prism ! 1, sides ex_prism ! 2, sides ex_prism ! 3, sides ex_prism ! 4]"
    by (subst s) simp
  also have "\<dots> = [\<lparr>cand_plane = 30, cand_axial = False, cand_metric = 0\<rparr>,
      \<lparr>cand_plane = 14, cand_axial = True, cand_metric = 51200\<rparr>]"
    by (simp add: map_filter_simps c1 c2 c3 del: One_nat_def)
  finally show ?thesis .
qed

lemma ChooseMidPlaneFromList_choice:
  assumes "volume node = Some vol"
  shows "(case ChooseMidPlaneFromList G brushes node stats of Inl e \<Rightarrow> None | Inr r \<Rightarrow> fst r) =
     (if snd (fst (fold best_step (mid_candidates G vol (node_bounds node) brushes)
                    ((VECT_MAX G, None), (VECT_MAX G, None)))) \<noteq> None
      then snd (fst (fold best_step (mid_candidates G vol (node_bounds node) brushes)
                    ((VECT_MAX G, None), (VECT_MAX G, None))))
      else snd (snd (fold best_step (mid_candidates G vol (node_bounds node) brushes)
                    ((VECT_MAX G, None), (VECT_MAX G, None)))))"
proof -
  define st where "st = mid_loop G vol (node_bounds node) brushes
      \<lparr>bestaxialmetric = VECT_MAX G, bestaxialplane = None,
       bestanymetric = VECT_MAX G, bestanyplane = None, mid_stats = stats\<rparr>"
  have b: "fold best_step (mid_candidates G vol (node_bounds node) brushes)
      ((VECT_MAX G, None), (VECT_MAX G, None)) = mid_bests st"
    unfolding st_def by (simp add: mid_loop_bests) (simp add: mid_bests_def)
  show ?thesis
    unfolding b using assms
    by (simp add: ChooseMidPlaneFromList_def Let_def st_def [symmetric] mid_bests_def)
qed


subsection \<open>The leading and the trailing corner of a box\<close>

lemma term_bounds:
  fixes n lo hi :: real
  assumes "lo \<le> hi"
  shows "n * lo \<le> n * (if n < 0 then lo else hi)" "n * hi \<le> n * (if n < 0 then lo else hi)"
        "n * (if n < 0 then hi else lo) \<le> n * lo" "n * (if n < 0 then hi else lo) \<le> n * hi"
  using assms by (auto intro: mult_left_mono mult_left_mono_neg)

lemma box_dist1_Max:
  assumes "vec_at (mins bx) 0 \<le> vec_at (maxs bx) 0" "vec_at (mins bx) 1 \<le> vec_at (maxs bx) 1"
    "vec_at (mins bx) 2 \<le> vec_at (maxs bx) 2"
  shows "box_dist1 bx plane = Max (set (map (plane_dist plane) (box_points bx)))"
proof -
  obtain a b c where mn: "mins bx = qvec3d a b c" by (cases "mins bx")
  obtain d e f where mx: "maxs bx = qvec3d d e f" by (cases "maxs bx")
  obtain nx ny nz where n: "normal plane = qvec3d nx ny nz" by (cases "normal plane")
  have le: "a \<le> d" "b \<le> e" "c \<le> f" using assms by (simp_all add: mn mx)
  have d1: "box_dist1 bx plane =
      nx * (if nx < 0 then a else d) + ny * (if ny < 0 then b else e) + nz * (if nz < 0 then c else f) - dist plane"
    by (simp add: box_dist1_def box_corners_def box_corner_step_def mn mx n)
  show ?thesis
  proof (rule sym, rule Max_eqI)
    show "finite (set (map (plane_dist plane) (box_points bx)))" by simp
    show "box_dist1 bx plane \<in> set (map (plane_dist plane) (box_points bx))"
      by (simp add: d1 box_points_def plane_dist_def mn mx n mult.commute)
    fix y assume "y \<in> set (map (plane_dist plane) (box_points bx))"
    then obtain x1 y1 z1 where y: "y = nx * x1 + ny * y1 + nz * z1 - dist plane"
      and m: "x1 = a \<or> x1 = d" "y1 = b \<or> y1 = e" "z1 = c \<or> z1 = f"
      by (auto simp: box_points_def plane_dist_def mn mx n mult.commute)
    have "nx * x1 \<le> nx * (if nx < 0 then a else d)" using m(1) term_bounds [OF le(1)] by blast
    moreover have "ny * y1 \<le> ny * (if ny < 0 then b else e)" using m(2) term_bounds [OF le(2)] by blast
    moreover have "nz * z1 \<le> nz * (if nz < 0 then c else f)" using m(3) term_bounds [OF le(3)] by blast
    ultimately show "y \<le> box_dist1 bx plane" unfolding y d1 by linarith
  qed
qed

lemma box_dist2_Min:
  assumes "vec_at (mins bx) 0 \<le> vec_at (maxs bx) 0" "vec_at (mins bx) 1 \<le> vec_at (maxs bx) 1"
    "vec_at (mins bx) 2 \<le> vec_at (maxs bx) 2"
  shows "box_dist2 bx plane = Min (set (map (plane_dist plane) (box_points bx)))"
proof -
  obtain a b c where mn: "mins bx = qvec3d a b c" by (cases "mins bx")
  obtain d e f where mx: "maxs bx = qvec3d d e f" by (cases "maxs bx")
  obtain nx ny nz where n: "normal plane = qvec3d nx ny nz" by (cases "normal plane")
  have le: "a \<le> d" "b \<le> e" "c \<le> f" using assms by (simp_all add: mn mx)
  have d2: "box_dist2 bx plane =
      nx * (if nx < 0 then d else a) + ny * (if ny < 0 then e else b) + nz * (if nz < 0 then f else c) - dist plane"
    by (simp add: box_dist2_def box_corners_def box_corner_step_def mn mx n)
  show ?thesis
  proof (rule sym, rule Min_eqI)
    show "finite (set (map (plane_dist plane) (box_points bx)))" by simp
    show "box_dist2 bx plane \<in> set (map (plane_dist plane) (box_points bx))"
      by (simp add: d2 box_points_def plane_dist_def mn mx n mult.commute)
    fix y assume "y \<in> set (map (plane_dist plane) (box_points bx))"
    then obtain x1 y1 z1 where y: "y = nx * x1 + ny * y1 + nz * z1 - dist plane"
      and m: "x1 = a \<or> x1 = d" "y1 = b \<or> y1 = e" "z1 = c \<or> z1 = f"
      by (auto simp: box_points_def plane_dist_def mn mx n mult.commute)
    have "nx * (if nx < 0 then d else a) \<le> nx * x1" using m(1) term_bounds [OF le(1)] by blast
    moreover have "ny * (if ny < 0 then e else b) \<le> ny * y1" using m(2) term_bounds [OF le(2)] by blast
    moreover have "nz * (if nz < 0 then f else c) \<le> nz * z1" using m(3) term_bounds [OF le(3)] by blast
    ultimately show "box_dist2 bx plane \<le> y" unfolding y d2 by linarith
  qed
qed

subsection \<open>The counter of the midsplit method\<close>





















subsection \<open>The scan of ChopBrushes and its invariant\<close>




lemma kept_first_Cons:
  "kept_first G (Suc n) (x # xs) = (list_all (\<lambda>y. chop_pair G x y = Continue) xs \<and> kept_first G n xs)"
  by simp









lemma length_one_hd: "length xs = Suc 0 \<Longrightarrow> xs = [hd xs]"
  by (cases xs) auto

lemma chop_pair_Continue:
  "chop_pair G a b = Continue \<Longrightarrow> pair_skipped G a b"
  unfolding chop_pair_def pair_skipped_def fragments_def Let_def
  by (auto split: if_splits dest: length_one_hd)

lemma chop_pair_ReplaceB1:
  "chop_pair G a b = ReplaceB1 sub \<Longrightarrow> sub = SubtractBrush G a b"
  unfolding chop_pair_def Let_def
  by (auto simp: SIZE_MAX_def split: if_splits)

lemma chop_pair_ReplaceB2:
  "chop_pair G a b = ReplaceB2 sub \<Longrightarrow> sub = SubtractBrush G b a"
  unfolding chop_pair_def Let_def
  by (auto simp: SIZE_MAX_def split: if_splits)




















subsection \<open>ChopBrushes on the example brushes\<close>



















subsection \<open>The splits of the detail bar\<close>

































subsection \<open>ChopBrushes on the three brushes\<close>













lemma ex_a_def': "ex_piece 0 16 (ex_sides_a @ [mid_side ex_globals 15 ex_mid15 0]) = ex_a"
  by (simp add: ex_a_def)











section \<open>The claims\<close>

subsection \<open>C5: BoxOnPlaneSide on a non-axial plane\<close>

text \<open>
  C5 as stated fails: the claim has the BACK bit set iff \<open>dist2 < - PLANESIDE_EPSILON\<close>.
  For the unit cube and the plane \<open>3/5 x - 4/5 y = - 4/5\<close> the trailing corner
  \<open>(0, 1, 0)\<close> is on the plane: \<open>dist2 = 0\<close>, the smallest distance of a corner of the
  cube, which is not below \<open>- PLANESIDE_EPSILON\<close>; and the BACK bit is set.
\<close>

theorem BoxOnPlaneSide_back_counterexample:
  "\<not> is_axial (ptype ex_slope_neg) \<and>
   box_dist2 ex_unit_box ex_slope_neg = 0 \<and>
   Min (set (map (plane_dist ex_slope_neg) (box_points ex_unit_box))) = 0 \<and>
   \<not> box_dist2 ex_unit_box ex_slope_neg < - PLANESIDE_EPSILON \<and>
   BoxOnPlaneSide ex_unit_box ex_slope_neg AND PSIDE_BACK \<noteq> 0"
proof -
  have "Min (set (map (plane_dist ex_slope_neg) (box_points ex_unit_box))) = 0"
    by (simp add: box_points_def plane_dist_def ex_unit_box_def ex_slope_neg_def)
  then show ?thesis
    by (simp add: BoxOnPlaneSide_def is_axial_def Let_def box_dist1_def box_dist2_def box_corners_def
          box_corner_step_def ex_unit_box_def ex_slope_neg_def PLANESIDE_EPSILON_def pside_defs)
qed

text \<open>
  C5 (amended): for every box with \<open>mins \<le> maxs\<close> on each axis and every non-axial
  plane, \<open>dist1\<close> is the greatest and \<open>dist2\<close> the smallest signed distance of the eight
  corners of the box from the plane, and BoxOnPlaneSide returns the OR of FRONT, set iff
  \<open>dist1 \<ge> PLANESIDE_EPSILON\<close>, and BACK, set iff \<open>dist2 < PLANESIDE_EPSILON\<close> (the
  positive epsilon in both tests).
\<close>

theorem BoxOnPlaneSide_nonaxial:
  "\<not> is_axial (ptype plane) \<Longrightarrow>
   vec_at (mins bx) 0 \<le> vec_at (maxs bx) 0 \<Longrightarrow>
   vec_at (mins bx) 1 \<le> vec_at (maxs bx) 1 \<Longrightarrow>
   vec_at (mins bx) 2 \<le> vec_at (maxs bx) 2 \<Longrightarrow>
   box_dist1 bx plane = Max (set (map (plane_dist plane) (box_points bx))) \<and>
   box_dist2 bx plane = Min (set (map (plane_dist plane) (box_points bx))) \<and>
   BoxOnPlaneSide bx plane =
     (if Max (set (map (plane_dist plane) (box_points bx))) \<ge> PLANESIDE_EPSILON then PSIDE_FRONT else 0) OR
     (if Min (set (map (plane_dist plane) (box_points bx))) < PLANESIDE_EPSILON then PSIDE_BACK else 0)"
proof -
  assume a: "\<not> is_axial (ptype plane)"
    and b: "vec_at (mins bx) 0 \<le> vec_at (maxs bx) 0" "vec_at (mins bx) 1 \<le> vec_at (maxs bx) 1"
      "vec_at (mins bx) 2 \<le> vec_at (maxs bx) 2"
  have d1: "box_dist1 bx plane = Max (set (map (plane_dist plane) (box_points bx)))"
    using b by (rule box_dist1_Max)
  have d2: "box_dist2 bx plane = Min (set (map (plane_dist plane) (box_points bx)))"
    using b by (rule box_dist2_Min)
  have "BoxOnPlaneSide bx plane =
     (if box_dist1 bx plane \<ge> PLANESIDE_EPSILON then PSIDE_FRONT else 0) OR
     (if box_dist2 bx plane < PLANESIDE_EPSILON then PSIDE_BACK else 0)"
    using a by (simp add: BoxOnPlaneSide_def Let_def)
  then show ?thesis using d1 d2 by simp
qed

text \<open>The unit cube and the plane \<open>3/5 x - 4/5 y = - 4/5\<close>, whose normal has a negative
  component: the leading corner is \<open>(1, 0, 1)\<close>, the trailing corner \<open>(0, 1, 0)\<close>.\<close>

theorem BoxOnPlaneSide_nonaxial_witness:
  "\<not> is_axial (ptype ex_slope_neg) \<and>
   vec_at (mins ex_unit_box) 0 \<le> vec_at (maxs ex_unit_box) 0 \<and>
   vec_at (mins ex_unit_box) 1 \<le> vec_at (maxs ex_unit_box) 1 \<and>
   vec_at (mins ex_unit_box) 2 \<le> vec_at (maxs ex_unit_box) 2 \<and>
   Max (set (map (plane_dist ex_slope_neg) (box_points ex_unit_box))) = 7 / 5 \<and>
   Min (set (map (plane_dist ex_slope_neg) (box_points ex_unit_box))) = 0 \<and>
   fst (box_corners ex_unit_box (normal ex_slope_neg)) = qvec3d 1 0 1 \<and>
   snd (box_corners ex_unit_box (normal ex_slope_neg)) = qvec3d 0 1 0 \<and>
   BoxOnPlaneSide ex_unit_box ex_slope_neg = PSIDE_BOTH"
proof -
  have h: "\<not> is_axial (ptype ex_slope_neg)"
    by (simp add: is_axial_def ex_slope_neg_def)
  have b: "vec_at (mins ex_unit_box) 0 \<le> vec_at (maxs ex_unit_box) 0"
    "vec_at (mins ex_unit_box) 1 \<le> vec_at (maxs ex_unit_box) 1"
    "vec_at (mins ex_unit_box) 2 \<le> vec_at (maxs ex_unit_box) 2"
    by (simp_all add: ex_unit_box_def)
  have c: "fst (box_corners ex_unit_box (normal ex_slope_neg)) = qvec3d 1 0 1"
    "snd (box_corners ex_unit_box (normal ex_slope_neg)) = qvec3d 0 1 0"
    by (simp_all add: box_corners_def box_corner_step_def ex_unit_box_def ex_slope_neg_def)
  have d1: "box_dist1 ex_unit_box ex_slope_neg = 7 / 5"
    by (simp add: box_dist1_def c) (simp add: ex_slope_neg_def)
  have d2: "box_dist2 ex_unit_box ex_slope_neg = 0"
    by (simp add: box_dist2_def c) (simp add: ex_slope_neg_def)
  show ?thesis
    using h b c BoxOnPlaneSide_nonaxial [OF h b]
    by (simp add: d1 d2 PLANESIDE_EPSILON_def pside_defs)
qed

subsection \<open>C1: SplitBrush on a brush that the plane does not cross\<close>

text \<open>
  C1 as stated fails in its second half: "if \<open>d_back\<close> is above -0.1 the result is
  (brush, none)". The slab \<open>ex_thin\<close> lies in front of the plane \<open>x = 0\<close> (plane 2), its
  points at the distances 0 and 1/20: \<open>d_back = 0\<close> is above -0.1, but \<open>d_front = 1/20\<close>
  is below 0.1, the first test decides, and the brush is returned on the back.
\<close>

theorem SplitBrush_uncrossed_counterexample:
  "snd (split_dists (get_plane ex_globals 2) ex_thin) > - (1 / 10) \<and>
   SplitBrush ex_globals ex_thin 2 new_stats \<noteq> ((Some ex_thin, None), new_stats) \<and>
   SplitBrush ex_globals ex_thin 2 new_stats = ((None, Some ex_thin), new_stats)"
proof -
  have d: "split_dists (get_plane ex_globals 2) ex_thin = (1 / 20, 0)"
    by (simp add: ex_defs split_dists_def split_point_def plane_dist_def Let_def)
  show ?thesis
    by (simp add: SplitBrush_def Let_def d)
qed

text \<open>
  C1 (amended): if every point of the brush has a signed distance below 0.1 from the split
  plane (\<open>d_front < 0.1\<close>), SplitBrush returns (none, brush); otherwise, if every point has
  a signed distance above -0.1 (\<open>d_back > -0.1\<close>), it returns (brush, none). The statistics
  are unchanged in both cases.
\<close>

theorem SplitBrush_uncrossed:
  "((\<forall>p\<in>set (brush_points brush). plane_dist (get_plane G pn) p < 1 / 10) \<longrightarrow>
      SplitBrush G brush pn stats = ((None, Some brush), stats)) \<and>
   ((\<exists>p\<in>set (brush_points brush). plane_dist (get_plane G pn) p \<ge> 1 / 10) \<and>
    (\<forall>p\<in>set (brush_points brush). plane_dist (get_plane G pn) p > - (1 / 10)) \<longrightarrow>
      SplitBrush G brush pn stats = ((Some brush, None), stats))"
proof -
  have f: "(fst (split_dists (get_plane G pn) brush) < 1 / 10)
      = (\<forall>p\<in>set (brush_points brush). plane_dist (get_plane G pn) p < 1 / 10)"
    by (rule split_dists_front)
  have b: "(snd (split_dists (get_plane G pn) brush) > - (1 / 10))
      = (\<forall>p\<in>set (brush_points brush). plane_dist (get_plane G pn) p > - (1 / 10))"
    by (rule split_dists_back)
  show ?thesis
    unfolding SplitBrush_def Let_def f b by (auto simp: not_less)
qed

text \<open>The cube \<open>[0, 64]\<^sup>3\<close> is behind the plane \<open>x = 100\<close> (plane 18) and in front of
  the plane \<open>x = 0\<close> (plane 2).\<close>

theorem SplitBrush_uncrossed_witness:
  "list_all (\<lambda>p. plane_dist (get_plane ex_globals 18) p < 1 / 10) (brush_points ex_cube) \<and>
   SplitBrush ex_globals ex_cube 18 new_stats = ((None, Some ex_cube), new_stats) \<and>
   list_ex (\<lambda>p. plane_dist (get_plane ex_globals 2) p \<ge> 1 / 10) (brush_points ex_cube) \<and>
   list_all (\<lambda>p. plane_dist (get_plane ex_globals 2) p > - (1 / 10)) (brush_points ex_cube) \<and>
   SplitBrush ex_globals ex_cube 2 new_stats = ((Some ex_cube, None), new_stats)"
proof -
  have a: "list_all (\<lambda>p. plane_dist (get_plane ex_globals 18) p < 1 / 10) (brush_points ex_cube)"
    by (simp add: ex_defs plane_dist_def)
  have b: "list_ex (\<lambda>p. plane_dist (get_plane ex_globals 2) p \<ge> 1 / 10) (brush_points ex_cube)"
    by (simp add: ex_defs plane_dist_def)
  have c: "list_all (\<lambda>p. plane_dist (get_plane ex_globals 2) p > - (1 / 10)) (brush_points ex_cube)"
    by (simp add: ex_defs plane_dist_def)
  show ?thesis
    using a b c SplitBrush_uncrossed [of ex_cube ex_globals 18 new_stats]
      SplitBrush_uncrossed [of ex_cube ex_globals 2 new_stats]
    by (simp add: list_all_iff list_ex_iff)
qed

subsection \<open>C10: SplitBrushList drops a brush that is on neither side\<close>

text \<open>
  C10: a brush whose cached classification \<open>side\<close> has neither the FRONT nor the BACK bit
  is appended to neither list: the lists and the statistics that SplitBrushList returns are
  the ones it returns for the list without this brush.
\<close>

theorem SplitBrushList_discards:
  "side b AND PSIDE_FRONT = 0 \<Longrightarrow> side b AND PSIDE_BACK = 0 \<Longrightarrow>
   SplitBrushList G (pre @ b # post) pn stats = SplitBrushList G (pre @ post) pn stats"
  by (simp add: SplitBrushList_def split_list_step_dropped)

text \<open>The slab \<open>ex_flat\<close> lies within PLANESIDE_EPSILON of the plane \<open>x = 32\<close> (plane 12)
  and has no side on it: TestBrushToPlanenum classifies it as 0, and SplitBrushList, given
  this brush alone, returns two empty lists.\<close>

theorem SplitBrushList_discards_witness:
  "fst (TestBrushToPlanenum ex_globals ex_flat 12 None None None) = 0 \<and>
   side (ex_flat\<lparr>side := 0\<rparr>) AND PSIDE_FRONT = 0 \<and>
   side (ex_flat\<lparr>side := 0\<rparr>) AND PSIDE_BACK = 0 \<and>
   SplitBrushList ex_globals [ex_flat\<lparr>side := 0\<rparr>] 12 new_stats = ([], [], new_stats)"
proof -
  have t: "fst (TestBrushToPlanenum ex_globals ex_flat 12 None None None) = 0"
    by (simp add: TestBrushToPlanenum_def BoxOnPlaneSide_def is_axial_def PLANESIDE_EPSILON_def
          Let_def ex_defs pside_defs)
  have e: "SplitBrushList ex_globals ([] @ []) 12 new_stats = ([], [], new_stats)"
    by (simp add: SplitBrushList_def)
  show ?thesis
    using t e SplitBrushList_discards [of "ex_flat\<lparr>side := 0\<rparr>" ex_globals "[]" "[]" 12 new_stats]
    by simp
qed

subsection \<open>C2: the dividing face of a real split\<close>

text \<open>
  C2: whenever SplitBrush returns both halves, the last side of each half is the dividing
  face made from the dividing winding: on the front half its plane number is
  \<open>planenum XOR 1\<close> and its winding is the flipped dividing winding, on the back half its
  plane number is \<open>planenum\<close> and its winding is the dividing winding; on both halves it
  has \<open>onnode\<close> set and the skip texinfo.
\<close>

theorem SplitBrush_dividing_face:
  assumes "SplitBrush G brush pn stats = ((Some f, Some b), stats')"
  shows "\<exists>mw. split_midwinding G (get_plane G pn) brush = Some mw \<and>
           sides f \<noteq> [] \<and> sides b \<noteq> [] \<and>
           planenum (last (sides f)) = pn XOR 1 \<and> planenum (last (sides b)) = pn \<and>
           onnode (last (sides f)) \<and> onnode (last (sides b)) \<and>
           texinfo (last (sides f)) = skip_texinfo (mapdata G) \<and>
           texinfo (last (sides b)) = skip_texinfo (mapdata G) \<and>
           side_w (last (sides f)) = flip (kernel G) mw \<and> side_w (last (sides b)) = mw"
  using assms
  unfolding SplitBrush_def Let_def split_unsplit_def split_finish_def
  by (auto simp: mid_side_def split: if_splits option.splits prod.splits dest!: volume_check_sides)

text \<open>The bar \<open>[0, 64] \<times> [0, 40] \<times> [0, 40]\<close> is split by the plane \<open>x = 32\<close> (plane 12)
  into two halves; their last sides are on the planes 13 and 12.\<close>

theorem SplitBrush_dividing_face_witness:
  "SplitBrush ex_globals ex_bar 12 new_stats =
     ((Some (ex_front\<lparr>sides := sides ex_front @ [mid_side ex_globals 12 ex_mid 0]\<rparr>),
       Some (ex_back\<lparr>sides := sides ex_back @ [mid_side ex_globals 12 ex_mid 1]\<rparr>)), new_stats) \<and>
   (\<exists>mw. split_midwinding ex_globals (get_plane ex_globals 12) ex_bar = Some mw \<and>
      planenum (last (sides ex_front @ [mid_side ex_globals 12 ex_mid 0])) = 13 \<and>
      planenum (last (sides ex_back @ [mid_side ex_globals 12 ex_mid 1])) = 12 \<and>
      onnode (last (sides ex_front @ [mid_side ex_globals 12 ex_mid 0])) \<and>
      onnode (last (sides ex_back @ [mid_side ex_globals 12 ex_mid 1])) \<and>
      texinfo (last (sides ex_front @ [mid_side ex_globals 12 ex_mid 0])) = 1 \<and>
      texinfo (last (sides ex_back @ [mid_side ex_globals 12 ex_mid 1])) = 1)"
proof -
  have sk: "skip_texinfo (mapdata ex_globals) = 1"
    by (simp add: ex_globals_def ex_map_def)
  show ?thesis
    using SplitBrush_dividing_face [OF ex_bar_split] ex_bar_split sk
    by auto
qed

subsection \<open>C3: the validation of the two halves\<close>

text \<open>
  C3: when SplitBrush reaches its validation step (the plane crosses the brush, and the
  dividing winding exists and is not tiny), with the halves \<open>h0\<close> (front) and \<open>h1\<close>
  (back) and their validated forms \<open>r0\<close> and \<open>r1\<close>: a half is dropped exactly when
  update_bounds fails, or its bounds exceed the world extent, or it has fewer than 3 sides;
  if both are dropped, SplitBrush returns (none, none) and increments
  \<open>c_brushesremoved\<close>; if exactly one is dropped, it returns the original brush on the
  side of the surviving half and increments \<open>c_brushesonesided\<close>.
\<close>

theorem SplitBrush_validation:
  assumes reach: "\<not> fst (split_dists (get_plane G pn) brush) < 1 / 10"
                 "\<not> snd (split_dists (get_plane G pn) brush) > - (1 / 10)"
                 "split_midwinding G (get_plane G pn) brush = Some mw"
                 "\<not> WindingIsTiny (kernel G) mw WindingIsTiny_default_size"
    and halves: "split_faces G (get_plane G pn) brush = (h0, h1)"
    and v0: "validate_half G h0 stats = (r0, stats0)"
    and v1: "validate_half G h1 stats0 = (r1, stats1)"
  shows "((r0 = None) =
           (\<not> fst (update_bounds (kernel G) (qbsp_options G) h0)
            \<or> bounds_outside (qbsp_options G) (bounds (snd (update_bounds (kernel G) (qbsp_options G) h0)))
            \<or> length (sides (snd (update_bounds (kernel G) (qbsp_options G) h0))) < 3)) \<and>
         ((r1 = None) =
           (\<not> fst (update_bounds (kernel G) (qbsp_options G) h1)
            \<or> bounds_outside (qbsp_options G) (bounds (snd (update_bounds (kernel G) (qbsp_options G) h1)))
            \<or> length (sides (snd (update_bounds (kernel G) (qbsp_options G) h1))) < 3)) \<and>
         (r0 = None \<and> r1 = None \<longrightarrow>
           SplitBrush G brush pn stats =
             ((None, None), stats1\<lparr>c_brushesremoved := c_brushesremoved stats1 + 1\<rparr>)) \<and>
         (r0 \<noteq> None \<and> r1 = None \<longrightarrow>
           SplitBrush G brush pn stats =
             ((Some brush, None), stats1\<lparr>c_brushesonesided := c_brushesonesided stats1 + 1\<rparr>)) \<and>
         (r0 = None \<and> r1 \<noteq> None \<longrightarrow>
           SplitBrush G brush pn stats =
             ((None, Some brush), stats1\<lparr>c_brushesonesided := c_brushesonesided stats1 + 1\<rparr>))"
proof -
  have a: "(r0 = None) =
           (\<not> fst (update_bounds (kernel G) (qbsp_options G) h0)
            \<or> bounds_outside (qbsp_options G) (bounds (snd (update_bounds (kernel G) (qbsp_options G) h0)))
            \<or> length (sides (snd (update_bounds (kernel G) (qbsp_options G) h0))) < 3)"
    using v0 by (auto simp: validate_half_def Let_def split: prod.splits if_splits)
  have b: "(r1 = None) =
           (\<not> fst (update_bounds (kernel G) (qbsp_options G) h1)
            \<or> bounds_outside (qbsp_options G) (bounds (snd (update_bounds (kernel G) (qbsp_options G) h1)))
            \<or> length (sides (snd (update_bounds (kernel G) (qbsp_options G) h1))) < 3)"
    using v1 by (auto simp: validate_half_def Let_def split: prod.splits if_splits)
  have sb: "SplitBrush G brush pn stats = split_finish G brush pn mw r0 r1 stats1"
    using reach halves v0 v1 by (simp add: SplitBrush_def Let_def)
  have c: "r0 = None \<and> r1 = None \<longrightarrow>
           SplitBrush G brush pn stats =
             ((None, None), stats1\<lparr>c_brushesremoved := c_brushesremoved stats1 + 1\<rparr>)"
    by (simp add: sb split_finish_def)
  have d: "r0 \<noteq> None \<and> r1 = None \<longrightarrow>
           SplitBrush G brush pn stats =
             ((Some brush, None), stats1\<lparr>c_brushesonesided := c_brushesonesided stats1 + 1\<rparr>)"
    by (auto simp: sb split_finish_def)
  have e: "r0 = None \<and> r1 \<noteq> None \<longrightarrow>
           SplitBrush G brush pn stats =
             ((None, Some brush), stats1\<lparr>c_brushesonesided := c_brushesonesided stats1 + 1\<rparr>)"
    by (auto simp: sb split_finish_def)
  from a b c d e show ?thesis by blast
qed

text \<open>With the world extent 50, the front half \<open>[32, 64] \<times> [0, 40] \<times> [0, 40]\<close> of the bar
  is outside the world and the back half is inside: SplitBrush returns the whole bar on
  the back.\<close>

theorem SplitBrush_validation_witness:
  "validate_half (ex_globals_extent 50) ex_half_front new_stats
     = (None, new_stats\<lparr>c_bogus := c_bogus new_stats + 1\<rparr>) \<and>
   validate_half (ex_globals_extent 50) ex_half_back (new_stats\<lparr>c_bogus := c_bogus new_stats + 1\<rparr>)
     = (Some ex_back, new_stats\<lparr>c_bogus := c_bogus new_stats + 1\<rparr>) \<and>
   bounds_outside (qbsp_options (ex_globals_extent 50)) (bounds ex_front) \<and>
   SplitBrush (ex_globals_extent 50) ex_bar 12 new_stats =
     ((None, Some ex_bar), new_stats\<lparr>c_bogus := 1, c_brushesonesided := 1\<rparr>)"
proof -
  have r1: "\<not> fst (split_dists (get_plane (ex_globals_extent 50) 12) ex_bar) < 1 / 10"
    by (simp add: ex_plane12 ex_bar_dists)
  have r2: "\<not> snd (split_dists (get_plane (ex_globals_extent 50) 12) ex_bar) > - (1 / 10)"
    by (simp add: ex_plane12 ex_bar_dists)
  have r3: "split_midwinding (ex_globals_extent 50) (get_plane (ex_globals_extent 50) 12) ex_bar = Some ex_mid"
    by (simp add: ex_plane12 ex_bar_midwinding)
  have r4: "split_faces (ex_globals_extent 50) (get_plane (ex_globals_extent 50) 12) ex_bar
      = (ex_half_front, ex_half_back)"
    by (simp add: ex_plane12 ex_bar_faces)
  have out: "bounds_outside (qbsp_options (ex_globals_extent 50)) (bounds ex_front)"
    by (simp add: bounds_outside_def ext_defs ex_front_def)
  show ?thesis
    using SplitBrush_validation [OF r1 r2 r3 ex_mid_not_tiny r4 ex_front_validate_50 ex_back_validate_50]
      ex_front_validate_50 [of new_stats] ex_back_validate_50 out
    by (simp add: new_stats_def)
qed

subsection \<open>C7: when SelectSplitPlane tries the midsplit method\<close>




subsection \<open>C8: a facing brush has no splits\<close>

text \<open>
  C8: whenever the classification that TestBrushToPlanenum returns has the FACING bit, the
  number of splits it writes is 0; so the loop of SelectSplitPlane that checks this never
  raises the fatal error, and neither does SelectSplitPlane.
\<close>

theorem facing_never_splits:
  "(fst (TestBrushToPlanenum G brush pn (Some ns) hs eb) AND PSIDE_FACING \<noteq> 0 \<longrightarrow>
      fst (snd (TestBrushToPlanenum G brush pn (Some ns) hs eb)) = Some 0) \<and>
   test_brushes G ppn spn brushes c \<noteq> Inl FacingWithSplits \<and>
   SelectSplitPlane G t n brushes fq stats \<noteq> Some (Inl FacingWithSplits)"
proof -
  have "test_brushes G ppn spn brushes c \<noteq> Inl FacingWithSplits"
    using test_brushes_no_error [of G ppn spn brushes c] by (metis sum.disc(1))
  moreover have "SelectSplitPlane G t n brushes fq stats \<noteq> Some (Inl FacingWithSplits)"
    using SelectSplitPlane_error [of G t n brushes fq stats FacingWithSplits] by auto
  ultimately show ?thesis
    using facing_zero_splits [of G brush pn ns hs eb] by blast
qed

theorem facing_never_splits_witness:
  "fst (TestBrushToPlanenum ex_globals ex_cube 0 (Some 7) (Some True) (Some 0)) = PSIDE_BACK OR PSIDE_FACING \<and>
   fst (TestBrushToPlanenum ex_globals ex_cube 0 (Some 7) (Some True) (Some 0)) AND PSIDE_FACING \<noteq> 0 \<and>
   fst (snd (TestBrushToPlanenum ex_globals ex_cube 0 (Some 7) (Some True) (Some 0))) = Some 0"
proof -
  have s: "fst (TestBrushToPlanenum ex_globals ex_cube 0 (Some 7) (Some True) (Some 0)) = PSIDE_BACK OR PSIDE_FACING"
    by (simp add: TestBrushToPlanenum_def Let_def ex_defs)
  have f: "fst (TestBrushToPlanenum ex_globals ex_cube 0 (Some 7) (Some True) (Some 0)) AND PSIDE_FACING \<noteq> 0"
    by (simp add: s pside_defs)
  show ?thesis
    using s f facing_never_splits [of ex_globals ex_cube 0 7 "Some True" "Some 0"]
    by blast
qed

subsection \<open>C9: the tree of an entity without brushes\<close>

text \<open>
  C9: for an empty brush list BrushBSP returns a tree of three nodes: the head node, which
  is not a leaf and has two children, both of them leaves with the empty contents, without
  children, and with the head node as their parent.
\<close>

theorem BrushBSP_empty:
  "BrushBSP G entity [] fq = Some (Inr (empty_hull G entity, mapdata G)) \<and>
   headnode (empty_hull G entity) = Some 0 \<and>
   length (nodes (empty_hull G entity)) = 3 \<and>
   children (nodes (empty_hull G entity) ! 0) = (Some 1, Some 2) \<and>
   \<not> is_leaf (nodes (empty_hull G entity) ! 0) \<and>
   is_leaf (nodes (empty_hull G entity) ! 1) \<and>
   is_leaf (nodes (empty_hull G entity) ! 2) \<and>
   node_contents (nodes (empty_hull G entity) ! 1) = create_empty_contents (target_game (qbsp_options G)) \<and>
   node_contents (nodes (empty_hull G entity) ! 2) = create_empty_contents (target_game (qbsp_options G)) \<and>
   parent (nodes (empty_hull G entity) ! 1) = Some 0 \<and>
   parent (nodes (empty_hull G entity) ! 2) = Some 0 \<and>
   children (nodes (empty_hull G entity) ! 1) = (None, None) \<and>
   children (nodes (empty_hull G entity) ! 2) = (None, None)"
  by (simp add: BrushBSP_def empty_hull_def create_node_def new_tree_def new_node_def node_upd_def Let_def)

subsection \<open>C6: the choice of ChooseMidPlaneFromList\<close>

text \<open>
  C6 as stated fails: the claim has the candidate with the smallest metric returned, an
  axial plane winning only on a tie. In the node of the bar the prism offers two valid
  planes: the sloping plane 30 through the centre, with the metric 0, and the axial plane
  14 (\<open>x = 16\<close>), with the metric 51200. ChooseMidPlaneFromList returns the axial plane.
\<close>

theorem ChooseMidPlaneFromList_counterexample:
  "mid_candidates ex_globals ex_bar (node_bounds ex_node) [ex_prism] =
     [\<lparr>cand_plane = 30, cand_axial = False, cand_metric = 0\<rparr>,
      \<lparr>cand_plane = 14, cand_axial = True, cand_metric = 51200\<rparr>] \<and>
   volume ex_node = Some ex_bar \<and>
   (case ChooseMidPlaneFromList ex_globals [ex_prism] ex_node new_stats of
      Inl e \<Rightarrow> None | Inr r \<Rightarrow> fst r) = Some 14"
proof -
  have v: "volume ex_node = Some ex_bar" and nb: "node_bounds ex_node = bounds ex_bar"
    by (simp_all add: ex_node_def)
  have vm: "VECT_MAX ex_globals = 2 ^ 1024"
    by (simp add: ex_globals_def)
  show ?thesis
    unfolding ChooseMidPlaneFromList_choice [OF v] nb ex_candidates vm
    by (simp add: v best_step_def)
qed

text \<open>
  C6 (amended): among the valid candidates (the positive planes of the sides that are
  neither bevels nor on a node, that split the volume of the node, and whose metric is
  below \<open>VECT_MAX\<close>), ChooseMidPlaneFromList returns an axial candidate with the smallest
  metric among the axial candidates whenever there is an axial candidate, whatever the
  metrics of the non-axial ones; without an axial candidate it returns a candidate with
  the smallest metric; without any candidate it returns none.
\<close>

theorem ChooseMidPlaneFromList_prefers_axial:
  assumes vol: "volume node = Some vol"
  shows "\<exists>p stats'. ChooseMidPlaneFromList G brushes node stats = Inr (p, stats') \<and>
     (if \<exists>c\<in>set (mid_candidates G vol (node_bounds node) brushes).
            cand_axial c \<and> cand_metric c < VECT_MAX G
      then \<exists>c\<in>set (mid_candidates G vol (node_bounds node) brushes).
             p = Some (cand_plane c) \<and> cand_axial c \<and>
             (\<forall>c'\<in>set (mid_candidates G vol (node_bounds node) brushes).
                cand_axial c' \<longrightarrow> cand_metric c \<le> cand_metric c')
      else if \<exists>c\<in>set (mid_candidates G vol (node_bounds node) brushes). cand_metric c < VECT_MAX G
      then \<exists>c\<in>set (mid_candidates G vol (node_bounds node) brushes).
             p = Some (cand_plane c) \<and>
             (\<forall>c'\<in>set (mid_candidates G vol (node_bounds node) brushes).
                cand_metric c \<le> cand_metric c')
      else p = None)"
proof -
  define cs where "cs = mid_candidates G vol (node_bounds node) brushes"
  define st0 where "st0 = \<lparr>bestaxialmetric = VECT_MAX G, bestaxialplane = None,
      bestanymetric = VECT_MAX G, bestanyplane = None, mid_stats = stats\<rparr>"
  define st where "st = mid_loop G vol (node_bounds node) brushes st0"
  have res: "ChooseMidPlaneFromList G brushes node stats =
      Inr (if bestaxialplane st \<noteq> None then bestaxialplane st else bestanyplane st, mid_stats st)"
    using vol by (simp add: ChooseMidPlaneFromList_def Let_def st_def st0_def)
  have b: "mid_bests st = fold best_step cs ((VECT_MAX G, None), (VECT_MAX G, None))"
    unfolding st_def cs_def by (simp add: mid_loop_bests) (simp add: mid_bests_def st0_def)
  have ax: "fst (fold best_step cs ((VECT_MAX G, None), (VECT_MAX G, None)))
      = (bestaxialmetric st, bestaxialplane st)"
    using b [symmetric] by (simp add: mid_bests_def)
  have any: "snd (fold best_step cs ((VECT_MAX G, None), (VECT_MAX G, None)))
      = (bestanymetric st, bestanyplane st)"
    using b [symmetric] by (simp add: mid_bests_def)
  note ia = best_axial_invariant [OF ax]
  note iy = best_any_invariant [OF any]
  let ?V = "VECT_MAX G"
  show ?thesis
  proof (cases "bestaxialplane st")
    case (Some q)
    from ia Some obtain c where c: "c \<in> set cs" "cand_axial c" "cand_plane c = q"
        "cand_metric c = bestaxialmetric st" "bestaxialmetric st < ?V"
        "\<forall>c'\<in>set cs. cand_axial c' \<longrightarrow> bestaxialmetric st \<le> cand_metric c'"
      by auto
    have cond: "(\<exists>c\<in>set cs. cand_axial c \<and> cand_metric c < ?V) = True"
      using c(1) c(2) c(4) c(5) by (simp, intro bexI [of _ c]) auto
    have r: "ChooseMidPlaneFromList G brushes node stats = Inr (Some q, mid_stats st)"
      using res Some by simp
    have "\<exists>c\<in>set cs. Some q = Some (cand_plane c) \<and> cand_axial c \<and>
            (\<forall>c'\<in>set cs. cand_axial c' \<longrightarrow> cand_metric c \<le> cand_metric c')"
      using c by (intro bexI [of _ c]) auto
    then show ?thesis
      unfolding cs_def [symmetric] cond if_True using r by blast
  next
    case None
    note axnone = None
    have ncond: "(\<exists>c\<in>set cs. cand_axial c \<and> cand_metric c < ?V) = False"
      using ia axnone by auto
    show ?thesis
    proof (cases "bestanyplane st")
      case None
      have ncond2: "(\<exists>c\<in>set cs. cand_metric c < ?V) = False"
        using iy None by auto
      have r: "ChooseMidPlaneFromList G brushes node stats = Inr (None, mid_stats st)"
        using res None axnone by simp
      show ?thesis
        unfolding cs_def [symmetric] ncond ncond2 if_False using r by blast
    next
      case (Some q)
      from iy Some obtain c where c: "c \<in> set cs" "cand_plane c = q"
          "cand_metric c = bestanymetric st" "bestanymetric st < ?V"
          "\<forall>c'\<in>set cs. bestanymetric st \<le> cand_metric c'"
        by auto
      have cond: "(\<exists>c\<in>set cs. cand_metric c < ?V) = True"
        using c(1) c(3) c(4) by (simp, intro bexI [of _ c]) auto
      have r: "ChooseMidPlaneFromList G brushes node stats = Inr (Some q, mid_stats st)"
        using res Some axnone by simp
      have "\<exists>c\<in>set cs. Some q = Some (cand_plane c) \<and> (\<forall>c'\<in>set cs. cand_metric c \<le> cand_metric c')"
        using c by (intro bexI [of _ c]) auto
      then show ?thesis
        unfolding cs_def [symmetric] ncond cond if_False if_True using r by blast
    qed
  qed
qed

text \<open>In the example the axial plane 14 is returned.\<close>

theorem ChooseMidPlaneFromList_prefers_axial_witness:
  "volume ex_node = Some ex_bar \<and>
   (\<exists>stats'. ChooseMidPlaneFromList ex_globals [ex_prism] ex_node new_stats = Inr (Some 14, stats'))"
proof -
  have v: "volume ex_node = Some ex_bar" and nb: "node_bounds ex_node = bounds ex_bar"
    by (simp_all add: ex_node_def)
  have vm: "VECT_MAX ex_globals = 2 ^ 1024"
    by (simp add: ex_globals_def)
  show ?thesis
    using v ChooseMidPlaneFromList_prefers_axial [OF v, of ex_globals "[ex_prism]" new_stats]
    unfolding nb ex_candidates vm
    by auto
qed


subsection \<open>C4: the pairs of brushes that ChopBrushes leaves\<close>



end
